theory Spec2Isabelle
  imports Complex_Main "HOL-Library.Monad_Syntax"
begin

section \<open>Data model\<close>

text \<open>
  A JavaScript number is modelled by the real it denotes. The coordinate transform
  (\<^verbatim>\<open>getMousePos\<close>, \<^verbatim>\<open>onWheel\<close>, the constant-width draw) is modelled with the IEEE
  rounding of every operation; the history manager works on integers, and the snapping
  functions are stated over the arithmetic the code writes down. A point is the object
  \<^verbatim>\<open>{x, y}\<close>.
\<close>

record point =
  px :: real
  py :: real

text \<open>The objects pushed by \<^verbatim>\<open>addVectorObject\<close>, tagged by their \<^verbatim>\<open>type\<close> field.\<close>

datatype vector_object =
    Line point point string real
  | Rectangle real real real real string real bool
  | Circle real real real string real bool
  | Polyline "point list" string real
  | Dimension point point point string real

text \<open>A segment \<^verbatim>\<open>{start, end}\<close> as built by the store's \<^verbatim>\<open>existingLines\<close>.\<close>

record segment =
  seg_start :: point
  seg_end :: point

datatype tool = SelectTool | PolylineTool | LineTool | RectangleTool | CircleTool | DimensionTool

text \<open>
  What a read of \<^verbatim>\<open>history.value[i]\<close> or a \<^verbatim>\<open>return null\<close> hands back:
  \<^verbatim>\<open>null\<close>, \<^verbatim>\<open>undefined\<close> (an index outside the array), or the entry.
\<close>

datatype 'img js_value = JNull | JUndefined | Entry 'img

text \<open>
  The pinia store \<^verbatim>\<open>useCADStore\<close>, with the fields the store source declares and the
  operations below use. The three snap switches carry the suffix \<open>_flag\<close> because the
  drawing utilities export functions of the same names.
\<close>

record 'img cad_store_declared =
  zoomLevel :: real
  currentTool :: tool
  lineWidth :: real
  lineColor :: string
  gridSize :: real
  showGrid :: bool
  snapToGrid_flag :: bool
  snapToPoints_flag :: bool
  snapToLines_flag :: bool
  snapTolerance :: real
  isDrawing :: bool
  polylinePoints :: "point list"
  dimensionStart :: "point option"
  vectorObjects :: "vector_object list"
  showInputDialog :: bool
  history :: "'img list"
  historyIndex :: int

text \<open>Modelled from the spec: the fields \<open>panOffset\<close>, \<open>dimensionSecondPoint\<close> and
  \<open>dimensionLinePosition\<close> are missing from the store source; the spec lists them in
  the transform state (a pan offset in screen pixels) and the construction state (points
  that may be absent), and the canvas component reads them from the store.\<close>

record 'img cad_store = "'img cad_store_declared" +
  panOffset :: point
  dimensionSecondPoint :: "point option"
  dimensionLinePosition :: "point option"

text \<open>The numbers that the literals \<^verbatim>\<open>0.1\<close> and \<^verbatim>\<open>10\<close> of \<^verbatim>\<open>zoomMin\<close> and \<^verbatim>\<open>zoomMax\<close>
  spell.\<close>

definition zoomMin :: real where
  "zoomMin = 1 / 10"

definition zoomMax :: real where
  "zoomMax = 10"

definition MAX_HISTORY_SIZE :: int where
  "MAX_HISTORY_SIZE = 50"

section \<open>History manager (cad-store.js)\<close>

text \<open>\<^verbatim>\<open>arr.slice(0, e)\<close>: a negative end counts from the back, both ends clamp.\<close>

definition js_slice0 :: "'a list \<Rightarrow> int \<Rightarrow> 'a list" where
  "js_slice0 xs e =
     (if e < 0 then take (nat (max (int (length xs) + e) 0)) xs else take (nat e) xs)"

text \<open>\<^verbatim>\<open>arr[i]\<close>: \<^verbatim>\<open>undefined\<close> outside the array.\<close>

definition js_index :: "'a list \<Rightarrow> int \<Rightarrow> 'a js_value" where
  "js_index xs i = (if 0 \<le> i \<and> i < int (length xs) then Entry (xs ! nat i) else JUndefined)"

definition canUndo :: "'img cad_store \<Rightarrow> bool" where
  "canUndo st = (historyIndex st > 0)"

definition canRedo :: "'img cad_store \<Rightarrow> bool" where
  "canRedo st = (historyIndex st < int (length (history st)) - 1)"

text \<open>
  \<^verbatim>\<open>saveState\<close>: at capacity \<^verbatim>\<open>shift()\<close> the oldest entry and lower the index
  (not below 0); then \<^verbatim>\<open>slice(0, historyIndex + 1)\<close>, \<^verbatim>\<open>push\<close>, \<^verbatim>\<open>historyIndex++\<close>.
\<close>

definition saveState :: "'img \<Rightarrow> 'img cad_store \<Rightarrow> 'img cad_store" where
  "saveState imageData st =
     (let full = (int (length (history st)) \<ge> MAX_HISTORY_SIZE);
          h1 = (if full then tl (history st) else history st);
          i1 = (if full then max 0 (historyIndex st - 1) else historyIndex st);
          h2 = js_slice0 h1 (i1 + 1)
      in st\<lparr>history := h2 @ [imageData], historyIndex := i1 + 1\<rparr>)"

definition undo :: "'img cad_store \<Rightarrow> 'img js_value \<times> 'img cad_store" where
  "undo st =
     (if canUndo st
      then (let st' = st\<lparr>historyIndex := historyIndex st - 1\<rparr>
            in (js_index (history st') (historyIndex st'), st'))
      else (JNull, st))"

definition redo :: "'img cad_store \<Rightarrow> 'img js_value \<times> 'img cad_store" where
  "redo st =
     (if canRedo st
      then (let st' = st\<lparr>historyIndex := historyIndex st + 1\<rparr>
            in (js_index (history st') (historyIndex st'), st'))
      else (JNull, st))"

definition clearHistory :: "'img cad_store \<Rightarrow> 'img cad_store" where
  "clearHistory st = st\<lparr>history := [], historyIndex := - 1\<rparr>"

text \<open>The store as \<^verbatim>\<open>defineStore\<close> creates it; the three fields it does not declare
  start at the origin and absent.\<close>

definition initialStore :: "'img cad_store" where
  "initialStore =
     \<lparr>zoomLevel = 1, currentTool = SelectTool,
      lineWidth = 2, lineColor = ''#000000'', gridSize = 20, showGrid = True,
      snapToGrid_flag = True, snapToPoints_flag = True, snapToLines_flag = True,
      snapTolerance = 10, isDrawing = False, polylinePoints = [],
      dimensionStart = None, vectorObjects = [], showInputDialog = False,
      history = [], historyIndex = - 1,
      panOffset = \<lparr>px = 0, py = 0\<rparr>, dimensionSecondPoint = None,
      dimensionLinePosition = None\<rparr>"

text \<open>The index points into the history, or is \<open>-1\<close> before the first entry.\<close>

definition history_ok :: "'img cad_store \<Rightarrow> bool" where
  "history_ok st = (- 1 \<le> historyIndex st \<and> historyIndex st < int (length (history st)))"

text \<open>Calling \<^verbatim>\<open>saveState\<close> once per snapshot, in order.\<close>

definition saveAll :: "'img list \<Rightarrow> 'img cad_store \<Rightarrow> 'img cad_store" where
  "saveAll imgs st = foldl (\<lambda>s img. saveState img s) st imgs"

text \<open>The value returned by the last of \<open>n + 1\<close> consecutive calls of \<^verbatim>\<open>undo\<close>.\<close>

fun undoN :: "nat \<Rightarrow> 'img cad_store \<Rightarrow> 'img js_value \<times> 'img cad_store" where
  "undoN 0 st = undo st"
| "undoN (Suc n) st = undoN n (snd (undo st))"

section \<open>Geometry kernel and snapping (drawing-utils.js)\<close>

definition calculateDistance :: "point \<Rightarrow> point \<Rightarrow> real" where
  "calculateDistance point1 point2 =
     sqrt ((px point2 - px point1)\<^sup>2 + (py point2 - py point1)\<^sup>2)"

definition calculateMidpoint :: "point \<Rightarrow> point \<Rightarrow> point" where
  "calculateMidpoint s e = \<lparr>px = (px s + px e) / 2, py = (py s + py e) / 2\<rparr>"

text \<open>\<^verbatim>\<open>Math.round\<close>: the nearest integer, a tie going up.\<close>

definition js_round :: "real \<Rightarrow> real" where
  "js_round r = of_int \<lfloor>r + 1 / 2\<rfloor>"

text \<open>
  \<^verbatim>\<open>snapToTransformedGrid\<close>. The divisions are by \<open>gridSize * zoomLevel\<close> and by
  \<open>zoomLevel\<close>; the store keeps \<open>gridSize\<close> in 5..100 and \<open>zoomLevel\<close> in
  0.1..10, and the theorems below assume both positive (JavaScript would produce
  \<^verbatim>\<open>NaN\<close> otherwise, which a real number cannot express).
\<close>

definition snapToTransformedGrid :: "point \<Rightarrow> real \<Rightarrow> point \<Rightarrow> real \<Rightarrow> point" where
  "snapToTransformedGrid p gSize pan zoom =
     (let screenGridSize = gSize * zoom;
          screenX = px p * zoom + px pan;
          screenY = py p * zoom + py pan;
          snappedScreenX = js_round (screenX / screenGridSize) * screenGridSize;
          snappedScreenY = js_round (screenY / screenGridSize) * screenGridSize
      in \<lparr>px = (snappedScreenX - px pan) / zoom, py = (snappedScreenY - py pan) / zoom\<rparr>)"

text \<open>\<^verbatim>\<open>snapToPoints\<close>: the first existing point within the tolerance, else \<^verbatim>\<open>null\<close>.\<close>

fun snapToPoints :: "point \<Rightarrow> point list \<Rightarrow> real \<Rightarrow> point option" where
  "snapToPoints p [] tolerance = None"
| "snapToPoints p (existingPoint # rest) tolerance =
     (if calculateDistance p existingPoint \<le> tolerance then Some existingPoint
      else snapToPoints p rest tolerance)"

definition snapToLine :: "point \<Rightarrow> point \<Rightarrow> point \<Rightarrow> real \<Rightarrow> point option" where
  "snapToLine p lineStart lineEnd tolerance =
     (let A = px p - px lineStart;
          B = py p - py lineStart;
          C = px lineEnd - px lineStart;
          D = py lineEnd - py lineStart;
          dot = A * C + B * D;
          lenSq = C * C + D * D
      in if lenSq = 0 then None
         else (let param = max 0 (min 1 (dot / lenSq));
                   snappedX = px lineStart + param * C;
                   snappedY = py lineStart + param * D
               in if calculateDistance p \<lparr>px = snappedX, py = snappedY\<rparr> \<le> tolerance
                  then Some \<lparr>px = snappedX, py = snappedY\<rparr>
                  else None))"

fun snapToLines :: "point \<Rightarrow> segment list \<Rightarrow> real \<Rightarrow> point option" where
  "snapToLines p [] tolerance = None"
| "snapToLines p (l # rest) tolerance =
     (case snapToLine p (seg_start l) (seg_end l) tolerance of
        Some snappedPoint \<Rightarrow> Some snappedPoint
      | None \<Rightarrow> snapToLines p rest tolerance)"

record snap_points =
  endpoints :: "point list"
  midpoints :: "point list"
  centers :: "point list"
  corners :: "point list"

text \<open>The body of the \<^verbatim>\<open>forEach\<close> in \<^verbatim>\<open>getAllSnapPoints\<close>: what one object pushes.\<close>

fun addSnapPoints :: "snap_points \<Rightarrow> vector_object \<Rightarrow> snap_points" where
  "addSnapPoints sp (Line s e color lw) =
     sp\<lparr>endpoints := endpoints sp @ [s, e],
        midpoints := midpoints sp @ [calculateMidpoint s e]\<rparr>"
| "addSnapPoints sp (Rectangle rx ry w h color lw filled) =
     sp\<lparr>corners := corners sp @
          [\<lparr>px = rx, py = ry\<rparr>, \<lparr>px = rx + w, py = ry\<rparr>,
           \<lparr>px = rx + w, py = ry + h\<rparr>, \<lparr>px = rx, py = ry + h\<rparr>],
        centers := centers sp @ [\<lparr>px = rx + w / 2, py = ry + h / 2\<rparr>]\<rparr>"
| "addSnapPoints sp (Circle cx cy r color lw filled) =
     sp\<lparr>centers := centers sp @ [\<lparr>px = cx, py = cy\<rparr>]\<rparr>"
| "addSnapPoints sp (Polyline pts color lw) = sp"
| "addSnapPoints sp (Dimension p1 p2 dl color lw) = sp"

definition getAllSnapPoints :: "vector_object list \<Rightarrow> snap_points" where
  "getAllSnapPoints objs =
     foldl addSnapPoints \<lparr>endpoints = [], midpoints = [], centers = [], corners = []\<rparr> objs"

text \<open>The store's computed \<^verbatim>\<open>existingLines\<close>: the segments of the polyline under
  construction, then the lines and the rectangle edges of the scene.\<close>

fun polylineSegments :: "point list \<Rightarrow> segment list" where
  "polylineSegments (a # b # rest) =
     \<lparr>seg_start = a, seg_end = b\<rparr> # polylineSegments (b # rest)"
| "polylineSegments pts = []"

fun objectLines :: "vector_object \<Rightarrow> segment list" where
  "objectLines (Line s e color lw) = [\<lparr>seg_start = s, seg_end = e\<rparr>]"
| "objectLines (Rectangle rx ry w h color lw filled) =
     [\<lparr>seg_start = \<lparr>px = rx, py = ry\<rparr>, seg_end = \<lparr>px = rx + w, py = ry\<rparr>\<rparr>,
      \<lparr>seg_start = \<lparr>px = rx + w, py = ry\<rparr>, seg_end = \<lparr>px = rx + w, py = ry + h\<rparr>\<rparr>,
      \<lparr>seg_start = \<lparr>px = rx + w, py = ry + h\<rparr>, seg_end = \<lparr>px = rx, py = ry + h\<rparr>\<rparr>,
      \<lparr>seg_start = \<lparr>px = rx, py = ry + h\<rparr>, seg_end = \<lparr>px = rx, py = ry\<rparr>\<rparr>]"
| "objectLines obj = []"

definition existingLines :: "'img cad_store \<Rightarrow> segment list" where
  "existingLines st =
     polylineSegments (polylinePoints st) @ concat (map objectLines (vectorObjects st))"

section \<open>Snap resolution (canvas component)\<close>

datatype snap_kind = GridSnap | EndpointSnap | MidpointSnap | CenterSnap | CornerSnap | LineSnap

record snap_result =
  position :: point
  snap_type :: "snap_kind option"

text \<open>The endpoint candidates of \<^verbatim>\<open>getSnappedPosition\<close>: those of the scene, then the
  polyline points, then the two dimension points that are set.\<close>

definition endpointCandidates :: "'img cad_store \<Rightarrow> point list" where
  "endpointCandidates st =
     (let e0 = endpoints (getAllSnapPoints (vectorObjects st));
          e1 = (if length (polylinePoints st) > 0 then e0 @ polylinePoints st else e0);
          e2 = (case dimensionStart st of Some d \<Rightarrow> e1 @ [d] | None \<Rightarrow> e1);
          e3 = (case dimensionSecondPoint st of Some d \<Rightarrow> e2 @ [d] | None \<Rightarrow> e2)
      in e3)"

text \<open>
  \<^verbatim>\<open>getSnappedPosition\<close> keeps the pair \<^verbatim>\<open>snapped\<close>, \<^verbatim>\<open>snapType\<close> and runs its blocks
  in order; each block below takes the pair before it and returns the pair after it.
  The grid block matches only when the grid point differs from the cursor.
\<close>

definition gridStep :: "'img cad_store \<Rightarrow> point \<Rightarrow> snap_result \<Rightarrow> snap_result" where
  "gridStep st pos r =
     (if snapToGrid_flag st
      then (let gridSnapped =
                  snapToTransformedGrid pos (gridSize st) (panOffset st) (zoomLevel st)
            in if px gridSnapped \<noteq> px pos \<or> py gridSnapped \<noteq> py pos
               then \<lparr>position = gridSnapped, snap_type = Some GridSnap\<rparr>
               else r)
      else r)"

text \<open>The endpoint check: it does not test \<^verbatim>\<open>!snapType\<close>.\<close>

definition endpointStep :: "'img cad_store \<Rightarrow> point \<Rightarrow> snap_result \<Rightarrow> snap_result" where
  "endpointStep st pos r =
     (case snapToPoints pos (endpointCandidates st) (snapTolerance st) of
        Some endpointSnap \<Rightarrow> \<lparr>position = endpointSnap, snap_type = Some EndpointSnap\<rparr>
      | None \<Rightarrow> r)"

text \<open>The midpoint, center and corner checks, each under \<^verbatim>\<open>if (!snapType)\<close>.\<close>

definition guardedPointStep ::
  "point \<Rightarrow> point list \<Rightarrow> real \<Rightarrow> snap_kind \<Rightarrow> snap_result \<Rightarrow> snap_result" where
  "guardedPointStep pos candidates tol kind r =
     (if snap_type r = None
      then (case snapToPoints pos candidates tol of
              Some s \<Rightarrow> \<lparr>position = s, snap_type = Some kind\<rparr>
            | None \<Rightarrow> r)
      else r)"

text \<open>The line block, under \<^verbatim>\<open>cadStore.snapToLines && !snapType\<close>.\<close>

definition lineStep :: "'img cad_store \<Rightarrow> point \<Rightarrow> snap_result \<Rightarrow> snap_result" where
  "lineStep st pos r =
     (if snapToLines_flag st \<and> snap_type r = None
      then (case snapToLines pos (existingLines st) (snapTolerance st) of
              Some lineSnap \<Rightarrow> \<lparr>position = lineSnap, snap_type = Some LineSnap\<rparr>
            | None \<Rightarrow> r)
      else r)"

definition getSnappedPosition :: "'img cad_store \<Rightarrow> point \<Rightarrow> snap_result" where
  "getSnappedPosition st pos =
     (let allSnapPoints = getAllSnapPoints (vectorObjects st);
          tol = snapTolerance st;
          r0 = \<lparr>position = pos, snap_type = None\<rparr>;
          r1 = gridStep st pos r0;
          r2 = (if snapToPoints_flag st
                then (let e = endpointStep st pos r1;
                          m = guardedPointStep pos (midpoints allSnapPoints) tol MidpointSnap e;
                          c = guardedPointStep pos (centers allSnapPoints) tol CenterSnap m
                      in guardedPointStep pos (corners allSnapPoints) tol CornerSnap c)
                else r1)
      in lineStep st pos r2)"



section \<open>IEEE-754 double arithmetic\<close>

text \<open>
  The coordinate transform is computed in JavaScript numbers: IEEE-754 binary64 with
  round-to-nearest, ties to even. A double is modelled by the real number it denotes.
  \<open>pow2 e\<close> is the power of two with an integer exponent, \<open>round_even\<close> rounds a real to
  the nearest integer with ties to the even one.
\<close>

definition pow2 :: "int \<Rightarrow> real" where
  "pow2 e = (if 0 \<le> e then 2 ^ nat e else 1 / 2 ^ nat (- e))"

definition round_even :: "real \<Rightarrow> int" where
  "round_even t =
     (let f = \<lfloor>t\<rfloor>
      in if t - of_int f < 1 / 2 then f
         else if 1 / 2 < t - of_int f then f + 1
         else if even f then f else f + 1)"

text \<open>The largest double, \<^verbatim>\<open>Number.MAX_VALUE\<close>.\<close>

definition maxDouble :: real where
  "maxDouble = (2 ^ 53 - 1) * 2 ^ 971"

text \<open>
  \<open>fl x\<close> is the double nearest to the real \<open>x\<close>: with the binary exponent
  \<open>e = \<lfloor>log 2 \<bar>x\<bar>\<rfloor>\<close>, the quotient of \<open>x\<close> by the spacing \<open>2 ^ (e - 52)\<close> of the doubles
  around it is rounded to an integer and scaled back. Zero stays zero. The result is
  \<open>None\<close> where the rounded value leaves the normal range of binary64: below
  \<open>2 ^ - 1022\<close> (the subnormal numbers) or above \<open>maxDouble\<close> (where JavaScript yields
  \<^verbatim>\<open>Infinity\<close>). Lemma \<open>fl_eval\<close> below computes \<open>fl\<close> once the exponent is given.
\<close>

definition fl :: "real \<Rightarrow> real option" where
  "fl x =
     (if x = 0 then Some 0
      else (let e = \<lfloor>log 2 \<bar>x\<bar>\<rfloor>;
                q = pow2 (e - 52);
                y = of_int (round_even (x / q)) * q
            in if e < - 1022 \<or> maxDouble < \<bar>y\<bar> then None else Some y))"

text \<open>
  An arithmetic operation of the code is the exact operation followed by a rounding.
  The rounding is a parameter of the functions below: \<open>fl\<close> is the arithmetic the code
  runs, \<open>exact\<close> is arithmetic over the reals. A division by zero (\<^verbatim>\<open>Infinity\<close> or
  \<^verbatim>\<open>NaN\<close> in JavaScript) is \<open>None\<close>.
\<close>

type_synonym rounding = "real \<Rightarrow> real option"

definition exact :: rounding where
  "exact x = Some x"

definition addR :: "rounding \<Rightarrow> real \<Rightarrow> real \<Rightarrow> real option" where
  "addR rnd a b = rnd (a + b)"

definition subR :: "rounding \<Rightarrow> real \<Rightarrow> real \<Rightarrow> real option" where
  "subR rnd a b = rnd (a - b)"

definition mulR :: "rounding \<Rightarrow> real \<Rightarrow> real \<Rightarrow> real option" where
  "mulR rnd a b = rnd (a * b)"

definition divR :: "rounding \<Rightarrow> real \<Rightarrow> real \<Rightarrow> real option" where
  "divR rnd a b = (if b = 0 then None else rnd (a / b))"

section \<open>Coordinate transform, zoom and drawing\<close>

text \<open>A mouse event, with the cursor already taken relative to the canvas
  (\<^verbatim>\<open>event.clientX - rect.left\<close>, \<^verbatim>\<open>event.clientY - rect.top\<close>).\<close>

record mouse_event =
  button :: nat
  rawX :: real
  rawY :: real

record wheel_event = mouse_event +
  deltaY :: real

text \<open>\<^verbatim>\<open>getMousePos\<close>: a subtraction and a division per axis, each rounded.\<close>

definition getMousePos :: "rounding \<Rightarrow> 'e mouse_event_scheme \<Rightarrow> 'img cad_store \<Rightarrow> point option" where
  "getMousePos rnd ev st =
     do {
       dx \<leftarrow> subR rnd (rawX ev) (px (panOffset st));
       wx \<leftarrow> divR rnd dx (zoomLevel st);
       dy \<leftarrow> subR rnd (rawY ev) (py (panOffset st));
       wy \<leftarrow> divR rnd dy (zoomLevel st);
       Some \<lparr>px = wx, py = wy\<rparr>
     }"

text \<open>The value of the same two expressions over the reals. \<^verbatim>\<open>onClick\<close> below hands
  it to the snap resolution; by \<open>getMousePos_exact_eq\<close> it is what \<open>getMousePos exact\<close>
  returns for a non-zero zoom.\<close>

definition getMousePos_exact :: "'e mouse_event_scheme \<Rightarrow> 'img cad_store \<Rightarrow> point" where
  "getMousePos_exact ev st =
     \<lparr>px = (rawX ev - px (panOffset st)) / zoomLevel st,
      py = (rawY ev - py (panOffset st)) / zoomLevel st\<rparr>"

text \<open>The path a constant-width line draw strokes: the arguments of \<^verbatim>\<open>moveTo\<close> and
  \<^verbatim>\<open>lineTo\<close>, in screen coordinates, with the style it sets.\<close>

record stroke =
  move_to :: point
  line_to :: point
  strokeStyle :: string
  stroke_lineWidth :: real

text \<open>\<^verbatim>\<open>drawLineWithConstantWidth\<close>: a multiplication and an addition per screen
  coordinate, each rounded.\<close>

definition drawLineWithConstantWidth ::
  "rounding \<Rightarrow> real \<Rightarrow> real \<Rightarrow> real \<Rightarrow> real \<Rightarrow> string \<Rightarrow> real \<Rightarrow> point \<Rightarrow> real \<Rightarrow> stroke option" where
  "drawLineWithConstantWidth rnd x1 y1 x2 y2 color width pan zoom =
     do {
       ax1 \<leftarrow> mulR rnd x1 zoom;
       screenX1 \<leftarrow> addR rnd ax1 (px pan);
       ay1 \<leftarrow> mulR rnd y1 zoom;
       screenY1 \<leftarrow> addR rnd ay1 (py pan);
       ax2 \<leftarrow> mulR rnd x2 zoom;
       screenX2 \<leftarrow> addR rnd ax2 (px pan);
       ay2 \<leftarrow> mulR rnd y2 zoom;
       screenY2 \<leftarrow> addR rnd ay2 (py pan);
       Some \<lparr>move_to = \<lparr>px = screenX1, py = screenY1\<rparr>,
             line_to = \<lparr>px = screenX2, py = screenY2\<rparr>,
             strokeStyle = color, stroke_lineWidth = width\<rparr>
     }"

text \<open>\<^verbatim>\<open>setZoom\<close>: \<^verbatim>\<open>Math.max(zoomMin, Math.min(level, zoomMax))\<close>. The constant
  \<^verbatim>\<open>zoomMin\<close> holds the double that the literal \<^verbatim>\<open>0.1\<close> denotes, \<open>rnd zoomMin\<close>; the
  literal \<^verbatim>\<open>10\<close> is a double. Minimum and maximum do not round.\<close>

definition setZoom :: "rounding \<Rightarrow> real \<Rightarrow> 'img cad_store \<Rightarrow> 'img cad_store option" where
  "setZoom rnd level st =
     do {
       zmin \<leftarrow> rnd zoomMin;
       Some (st\<lparr>zoomLevel := max zmin (min level zoomMax)\<rparr>)
     }"

text \<open>Modelled from the spec: the store action \<^verbatim>\<open>setPanOffset\<close> is called by the canvas
  component but missing from the store source; it assigns the transform state's
  \<open>panOffset\<close> (a pair of screen pixels) from its two arguments.\<close>

definition setPanOffset :: "real \<Rightarrow> real \<Rightarrow> 'img cad_store \<Rightarrow> 'img cad_store" where
  "setPanOffset nx ny st = st\<lparr>panOffset := \<lparr>px = nx, py = ny\<rparr>\<rparr>"

text \<open>\<^verbatim>\<open>onWheel\<close>: the world point under the cursor, the stepped and clamped zoom,
  then the pan solved from them. \<open>k\<close> is the double that the literal \<^verbatim>\<open>1.2\<close> denotes.
  The redraw leaves the store alone.\<close>

definition onWheel :: "rounding \<Rightarrow> wheel_event \<Rightarrow> 'img cad_store \<Rightarrow> 'img cad_store option" where
  "onWheel rnd ev st =
     do {
       dx \<leftarrow> subR rnd (rawX ev) (px (panOffset st));
       worldX \<leftarrow> divR rnd dx (zoomLevel st);
       dy \<leftarrow> subR rnd (rawY ev) (py (panOffset st));
       worldY \<leftarrow> divR rnd dy (zoomLevel st);
       k \<leftarrow> rnd (12 / 10);
       zmin \<leftarrow> rnd zoomMin;
       newZoom \<leftarrow> (if deltaY ev < 0
                   then do { t \<leftarrow> mulR rnd (zoomLevel st) k; Some (min t zoomMax) }
                   else do { t \<leftarrow> divR rnd (zoomLevel st) k; Some (max t zmin) });
       st1 \<leftarrow> setZoom rnd newZoom st;
       tx \<leftarrow> mulR rnd worldX newZoom;
       newPanX \<leftarrow> subR rnd (rawX ev) tx;
       ty \<leftarrow> mulR rnd worldY newZoom;
       newPanY \<leftarrow> subR rnd (rawY ev) ty;
       Some (setPanOffset newPanX newPanY st1)
     }"

section \<open>Construction state and the command line (canvas component)\<close>

datatype command = WidthCommand | HeightCommand | RadiusCommand

text \<open>The three closures \<^verbatim>\<open>onClick\<close> hands to \<^verbatim>\<open>showCommand\<close>; the height closure
  holds the width (in pixels) it was created under.\<close>

datatype callback = WidthCallback | HeightCallback real | RadiusCallback

text \<open>The command input after \<^verbatim>\<open>trim()\<close>: empty, or a text that \<^verbatim>\<open>parseFloat\<close> reads as
  the given finite number (in inches). The source hands any other text to the callback
  as it is; such input is outside this model, whose objects hold numbers only.\<close>

datatype command_text = Blank | Numeric real

text \<open>How a callback can end other than by returning: reading \<^verbatim>\<open>.x\<close> of a \<^verbatim>\<open>null\<close>
  start point throws.\<close>

datatype js_error = TypeError

text \<open>The component's own state around the store: \<^verbatim>\<open>drawingState.startPoint\<close>, the
  command line, and the messages passed to \<^verbatim>\<open>alert\<close>.\<close>

record 'img canvas =
  store :: "'img cad_store"
  startPoint :: "point option"
  currentCommand :: "command option"
  commandCallback :: "callback option"
  commandInput :: command_text
  alerts :: "string list"

definition addVectorObject :: "vector_object \<Rightarrow> 'img cad_store \<Rightarrow> 'img cad_store" where
  "addVectorObject obj st = st\<lparr>vectorObjects := vectorObjects st @ [obj]\<rparr>"

definition addPolylinePoint :: "point \<Rightarrow> 'img cad_store \<Rightarrow> 'img cad_store" where
  "addPolylinePoint p st = st\<lparr>polylinePoints := polylinePoints st @ [p]\<rparr>"

definition clearPolylinePoints :: "'img cad_store \<Rightarrow> 'img cad_store" where
  "clearPolylinePoints st = st\<lparr>polylinePoints := []\<rparr>"

definition setIsDrawing :: "bool \<Rightarrow> 'img cad_store \<Rightarrow> 'img cad_store" where
  "setIsDrawing drawing st = st\<lparr>isDrawing := drawing\<rparr>"

text \<open>\<^verbatim>\<open>cancelInput\<close> closes the input dialog; its callback and text are not part of
  the model.\<close>

definition cancelInput :: "'img cad_store \<Rightarrow> 'img cad_store" where
  "cancelInput st = st\<lparr>showInputDialog := False\<rparr>"

text \<open>Modelled from the spec: the store action \<^verbatim>\<open>clearAllDimensionData\<close> is called by
  the canvas component but missing from the store source; committing or cancelling a
  dimension clears all three transient fields.\<close>

definition clearAllDimensionData :: "'img cad_store \<Rightarrow> 'img cad_store" where
  "clearAllDimensionData st =
     st\<lparr>dimensionStart := None, dimensionSecondPoint := None, dimensionLinePosition := None\<rparr>"

text \<open>The component's \<^verbatim>\<open>saveState\<close>: push the raster read off the canvas, which the
  model takes as the argument \<open>capture\<close>.\<close>

definition saveState_canvas :: "'img \<Rightarrow> 'img canvas \<Rightarrow> 'img canvas" where
  "saveState_canvas capture c = c\<lparr>store := saveState capture (store c)\<rparr>"

definition showCommand :: "command \<Rightarrow> callback \<Rightarrow> 'img canvas \<Rightarrow> 'img canvas" where
  "showCommand cmd cb c =
     c\<lparr>currentCommand := Some cmd, commandCallback := Some cb, commandInput := Blank\<rparr>"

definition clearCommand :: "'img canvas \<Rightarrow> 'img canvas" where
  "clearCommand c = c\<lparr>currentCommand := None, commandCallback := None, commandInput := Blank\<rparr>"

text \<open>Running one of the three closures on the submitted number of pixels.\<close>

fun runCallback :: "'img \<Rightarrow> callback \<Rightarrow> real \<Rightarrow> 'img canvas \<Rightarrow> js_error + 'img canvas" where
  "runCallback capture WidthCallback userWidth c =
     (if userWidth \<le> 0 then Inr (c\<lparr>alerts := alerts c @ [''Width must be positive'']\<rparr>)
      else Inr (showCommand HeightCommand (HeightCallback userWidth) c))"
| "runCallback capture (HeightCallback userWidth) userHeight c =
     (if userHeight \<le> 0 then Inr (c\<lparr>alerts := alerts c @ [''Height must be positive'']\<rparr>)
      else (case startPoint c of
              None \<Rightarrow> Inl TypeError
            | Some sp \<Rightarrow>
                Inr (saveState_canvas capture
                  (c\<lparr>store := addVectorObject
                       (Rectangle (px sp) (py sp) userWidth userHeight (lineColor (store c))
                          (lineWidth (store c)) False) (store c),
                     startPoint := None\<rparr>))))"
| "runCallback capture RadiusCallback userRadius c =
     (if userRadius \<le> 0 then Inr (c\<lparr>alerts := alerts c @ [''Radius must be positive'']\<rparr>)
      else (case startPoint c of
              None \<Rightarrow> Inl TypeError
            | Some sp \<Rightarrow>
                Inr (saveState_canvas capture
                  (c\<lparr>store := addVectorObject
                       (Circle (px sp) (py sp) userRadius (lineColor (store c))
                          (lineWidth (store c)) False) (store c),
                     startPoint := None\<rparr>))))"


text \<open>\<^verbatim>\<open>submitCommand\<close>: inches become pixels at 96 per inch; the callback runs, then
  \<^verbatim>\<open>clearCommand\<close>, also when the callback has just shown the next prompt. An error
  leaves the callback before \<^verbatim>\<open>clearCommand\<close>.\<close>

definition submitCommand :: "'img \<Rightarrow> 'img canvas \<Rightarrow> js_error + 'img canvas" where
  "submitCommand capture c =
     (case (currentCommand c, commandCallback c) of
        (Some cmd, Some cb) \<Rightarrow>
          (case commandInput c of
             Blank \<Rightarrow> Inr (clearCommand c)
           | Numeric numericValue \<Rightarrow>
               (case runCallback capture cb (numericValue * 96) c of
                  Inl e \<Rightarrow> Inl e
                | Inr c' \<Rightarrow> Inr (clearCommand c')))
      | _ \<Rightarrow> Inr c)"

text \<open>\<^verbatim>\<open>handleEscape\<close>. Redrawing leaves the state alone.\<close>

definition handleEscape :: "'img canvas \<Rightarrow> 'img canvas" where
  "handleEscape c =
     (let c1 = (if startPoint c \<noteq> None then c\<lparr>startPoint := None\<rparr> else c);
          c2 = (if dimensionStart (store c1) \<noteq> None \<or> dimensionSecondPoint (store c1) \<noteq> None
                     \<or> dimensionLinePosition (store c1) \<noteq> None
                then c1\<lparr>store := clearAllDimensionData (store c1)\<rparr> else c1);
          c3 = (if showInputDialog (store c2) then c2\<lparr>store := cancelInput (store c2)\<rparr> else c2)
      in c3)"

text \<open>The right-click branch of \<^verbatim>\<open>onClick\<close>: complete the polyline being drawn, then
  cancel the current operation.\<close>

definition onRightClick :: "'img \<Rightarrow> 'img canvas \<Rightarrow> 'img canvas" where
  "onRightClick capture c =
     (let c1 = (if currentTool (store c) = PolylineTool \<and> isDrawing (store c)
                then (let d = c\<lparr>store := setIsDrawing False (store c)\<rparr>
                      in if length (polylinePoints (store d)) > 1
                         then saveState_canvas capture
                                (d\<lparr>store := clearPolylinePoints
                                     (addVectorObject
                                        (Polyline (polylinePoints (store d)) (lineColor (store d))
                                           (lineWidth (store d))) (store d))\<rparr>)
                         else d)
                else c);
          c2 = (if startPoint c1 \<noteq> None then c1\<lparr>startPoint := None\<rparr> else c1);
          c3 = (if dimensionStart (store c2) \<noteq> None \<or> dimensionSecondPoint (store c2) \<noteq> None
                     \<or> dimensionLinePosition (store c2) \<noteq> None
                then c2\<lparr>store := clearAllDimensionData (store c2)\<rparr> else c2)
      in clearCommand c3)"

text \<open>The left-click branch of \<^verbatim>\<open>onClick\<close>, on the snapped position.\<close>

definition onLeftClick :: "'img \<Rightarrow> point \<Rightarrow> 'img canvas \<Rightarrow> 'img canvas" where
  "onLeftClick capture snapped c =
     (let st = store c in
      if currentTool st = PolylineTool \<and> \<not> isDrawing st
      then c\<lparr>store := addPolylinePoint snapped st\<rparr>
      else if currentTool st = LineTool \<and> startPoint c \<noteq> None
      then saveState_canvas capture
             (c\<lparr>store := addVectorObject
                  (Line (the (startPoint c)) snapped (lineColor st) (lineWidth st)) st,
                startPoint := None\<rparr>)
      else if currentTool st = RectangleTool \<and> startPoint c \<noteq> None
      then showCommand WidthCommand WidthCallback c
      else if currentTool st = CircleTool \<and> startPoint c \<noteq> None
      then showCommand RadiusCommand RadiusCallback c
      else if currentTool st = DimensionTool \<and> dimensionStart st \<noteq> None
              \<and> dimensionSecondPoint st \<noteq> None \<and> dimensionLinePosition st \<noteq> None
      then saveState_canvas capture
             (c\<lparr>store := clearAllDimensionData
                  (addVectorObject
                     (Dimension (the (dimensionStart st)) (the (dimensionSecondPoint st))
                        (the (dimensionLinePosition st)) (lineColor st) (lineWidth st)) st)\<rparr>)
      else c)"

text \<open>\<^verbatim>\<open>onClick\<close>: button 0 is the left button, button 2 the right one.\<close>

definition onClick :: "'img \<Rightarrow> mouse_event \<Rightarrow> 'img canvas \<Rightarrow> 'img canvas" where
  "onClick capture ev c =
     (let pos = getMousePos_exact ev (store c);
          snapResult = getSnappedPosition (store c) pos;
          snapped = position snapResult
      in if button ev = 0 then onLeftClick capture snapped c
         else if button ev = 2 then onRightClick capture c
         else c)"

section \<open>Keyboard dispatch (canvas component)\<close>

text \<open>\<^verbatim>\<open>String.prototype.toLowerCase\<close> on the letters a key name can hold.\<close>

definition lowerChar :: "char \<Rightarrow> char" where
  "lowerChar ch =
     (case map_of (zip ''ABCDEFGHIJKLMNOPQRSTUVWXYZ'' ''abcdefghijklmnopqrstuvwxyz'') ch of
        Some l \<Rightarrow> l
      | None \<Rightarrow> ch)"

definition toLowerCase :: "string \<Rightarrow> string" where
  "toLowerCase s = map lowerChar s"

text \<open>The handlers \<^verbatim>\<open>handleKeyDown\<close> can invoke.\<close>

datatype key_action =
    UndoAction | RedoAction | ClearCanvasAction | SetToolAction tool | ToggleGridAction
  | ToggleSnapToGridAction | ShowHelpAction | HandleEscapeAction | RefreshCanvasAction

text \<open>The table \<^verbatim>\<open>keyboardShortcuts\<close>, with its property names as written.\<close>

definition keyboardShortcuts :: "(string \<times> key_action) list" where
  "keyboardShortcuts =
     [(''v'', SetToolAction SelectTool), (''p'', SetToolAction PolylineTool),
      (''l'', SetToolAction LineTool), (''r'', SetToolAction RectangleTool),
      (''c'', SetToolAction CircleTool), (''d'', SetToolAction DimensionTool),
      (''g'', ToggleGridAction), (''s'', ToggleSnapToGridAction), (''h'', ShowHelpAction),
      (''Escape'', HandleEscapeAction), (''f5'', RefreshCanvasAction)]"

text \<open>Which handler \<^verbatim>\<open>handleKeyDown\<close> invokes for \<^verbatim>\<open>event.ctrlKey\<close> and
  \<^verbatim>\<open>event.key\<close>: the key is lower-cased, then the Ctrl combinations, then the table.\<close>

definition handleKeyDown :: "bool \<Rightarrow> string \<Rightarrow> key_action option" where
  "handleKeyDown ctrlKey eventKey =
     (let key = toLowerCase eventKey
      in if ctrlKey \<and> key = ''z'' then Some UndoAction
         else if ctrlKey \<and> key = ''y'' then Some RedoAction
         else if ctrlKey \<and> key = ''delete'' then Some ClearCanvasAction
         else map_of keyboardShortcuts key)"

section \<open>Example scenes and component states\<close>

text \<open>
  A scene for the snap priority: the default store with one line starting at (5, 4).
\<close>

definition endpointScene :: "unit cad_store" where
  "endpointScene = initialStore\<lparr>vectorObjects :=
      [Line \<lparr>px = 5, py = 4\<rparr> \<lparr>px = 100, py = 100\<rparr> ''#000000'' 2]\<rparr>"



text \<open>
  Component states for the examples: nothing in progress; a polyline being drawn with
  two points; a drag start and a half-placed dimension; the width prompt holding -2 and
  the radius prompt holding 0.
\<close>

definition idleCanvas :: "string canvas" where
  "idleCanvas = \<lparr>store = initialStore, startPoint = None, currentCommand = None,
                  commandCallback = None, commandInput = Blank, alerts = []\<rparr>"

definition polylineCanvas :: "string canvas" where
  "polylineCanvas = idleCanvas\<lparr>store := initialStore\<lparr>currentTool := PolylineTool, isDrawing := True,
      polylinePoints := [\<lparr>px = 0, py = 0\<rparr>, \<lparr>px = 20, py = 0\<rparr>]\<rparr>\<rparr>"

definition dragCanvas :: "string canvas" where
  "dragCanvas = idleCanvas\<lparr>store := initialStore\<lparr>currentTool := DimensionTool,
      dimensionStart := Some \<lparr>px = 0, py = 0\<rparr>,
      dimensionSecondPoint := Some \<lparr>px = 40, py = 0\<rparr>\<rparr>,
    startPoint := Some \<lparr>px = 20, py = 20\<rparr>\<rparr>"



text \<open>
  Inputs for the coordinate transform: a wheel-up event at cursor (7, 7), and the store
  it leaves behind when applied to the default store; a store panned by \<open>10 ^ 17\<close> on both
  axes and a store at zoom 3, each with the stroke that \<^verbatim>\<open>drawLineWithConstantWidth\<close>
  produces for the segment drawn on it in the examples; a store at zoom 9 with pan
  (10, 5), and the store a wheel-up at cursor (100, 50) leaves behind.
\<close>

definition wheelIn :: wheel_event where
  "wheelIn = \<lparr>button = 0, rawX = 7, rawY = 7, deltaY = - 1\<rparr>"

definition zoomedStore :: "unit cad_store" where
  "zoomedStore = initialStore\<lparr>zoomLevel := 5404319552844595 / 2 ^ 52,
      panOffset := \<lparr>px = - (788129934789837 / 2 ^ 49), py = - (788129934789837 / 2 ^ 49)\<rparr>\<rparr>"

definition hugePanStore :: "unit cad_store" where
  "hugePanStore = initialStore\<lparr>panOffset := \<lparr>px = 10 ^ 17, py = 10 ^ 17\<rparr>\<rparr>"

definition hugeStroke :: stroke where
  "hugeStroke = \<lparr>move_to = \<lparr>px = 10 ^ 17, py = 10 ^ 17\<rparr>,
      line_to = \<lparr>px = 10 ^ 17, py = 10 ^ 17\<rparr>, strokeStyle = ''#000000'', stroke_lineWidth = 1\<rparr>"

definition tripleZoomStore :: "unit cad_store" where
  "tripleZoomStore = initialStore\<lparr>zoomLevel := 3\<rparr>"

definition tripleStroke :: stroke where
  "tripleStroke = \<lparr>move_to = \<lparr>px = 1351079888211149 / 2 ^ 52, py = 1351079888211149 / 2 ^ 52\<rparr>,
      line_to = \<lparr>px = 21, py = 21\<rparr>, strokeStyle = ''#000000'', stroke_lineWidth = 1\<rparr>"

definition nearMaxStore :: "unit cad_store" where
  "nearMaxStore = initialStore\<lparr>zoomLevel := 9, panOffset := \<lparr>px = 10, py = 5\<rparr>\<rparr>"

definition clampedStore :: "unit cad_store" where
  "clampedStore = initialStore\<lparr>zoomLevel := 10, panOffset := \<lparr>px = 0, py = 0\<rparr>\<rparr>"

section \<open>History: lemmas\<close>

lemma saveState_index_at_end:
  assumes "history_ok st"
  shows "historyIndex (saveState img st) = int (length (history (saveState img st))) - 1"
  using assms
  by (auto simp: saveState_def history_ok_def js_slice0_def MAX_HISTORY_SIZE_def Let_def)

lemma saveState_at_end:
  assumes "historyIndex st = int (length (history st)) - 1"
  shows "history (saveState img st) =
           (if int (length (history st)) \<ge> MAX_HISTORY_SIZE then tl (history st) else history st) @ [img]"
    and "historyIndex (saveState img st) = int (length (history (saveState img st))) - 1"
  using assms
  by (auto simp: saveState_def js_slice0_def MAX_HISTORY_SIZE_def Let_def)

lemma saveAll_snoc: "saveAll (xs @ [x]) st = saveState x (saveAll xs st)"
  by (simp add: saveAll_def)

lemma saveAll_from_empty:
  assumes "history st = []" and "historyIndex st = - 1"
  shows "history (saveAll xs st) = drop (length xs - 50) xs
         \<and> historyIndex (saveAll xs st) = int (length (history (saveAll xs st))) - 1"
proof (induction xs rule: rev_induct)
  case Nil
  show ?case using assms by (simp add: saveAll_def)
next
  case (snoc x xs)
  let ?s = "saveAll xs st"
  from snoc have h: "history ?s = drop (length xs - 50) xs"
    and i: "historyIndex ?s = int (length (history ?s)) - 1" by simp_all
  have idx: "historyIndex (saveState x ?s) = int (length (history (saveState x ?s))) - 1"
    using saveState_at_end(2)[OF i] .
  have "history (saveState x ?s) = drop (length (xs @ [x]) - 50) (xs @ [x])"
  proof (cases "length xs \<ge> 50")
    case True
    then have "int (length (history ?s)) \<ge> MAX_HISTORY_SIZE"
      by (simp add: h MAX_HISTORY_SIZE_def)
    then have "history (saveState x ?s) = tl (history ?s) @ [x]"
      using saveState_at_end(1)[OF i] by simp
    also have "tl (history ?s) = drop (Suc (length xs - 50)) xs"
      by (simp add: h drop_Suc tl_drop)
    finally have "history (saveState x ?s) = drop (Suc (length xs - 50)) xs @ [x]" .
    moreover have "Suc (length xs - 50) = length (xs @ [x]) - 50" using True by simp
    ultimately show ?thesis using True by simp
  next
    case False
    then have "\<not> int (length (history ?s)) \<ge> MAX_HISTORY_SIZE"
      by (simp add: h MAX_HISTORY_SIZE_def)
    then have "history (saveState x ?s) = history ?s @ [x]"
      using saveState_at_end(1)[OF i] by simp
    then show ?thesis using False by (simp add: h)
  qed
  then show ?case using idx by (simp add: saveAll_snoc)
qed

lemma undoN_result:
  assumes "history_ok st" and "0 \<le> historyIndex st"
  shows "fst (undoN k st) =
           (if int k < historyIndex st
            then Entry (history st ! nat (historyIndex st - 1 - int k)) else JNull)"
  using assms
proof (induction k arbitrary: st)
  case 0
  then show ?case by (auto simp: undo_def canUndo_def js_index_def history_ok_def Let_def)
next
  case (Suc k)
  show ?case
  proof (cases "historyIndex st > 0")
    case True
    let ?s = "snd (undo st)"
    have s: "?s = st\<lparr>historyIndex := historyIndex st - 1\<rparr>"
      using True by (simp add: undo_def canUndo_def Let_def)
    have ok: "history_ok ?s" "0 \<le> historyIndex ?s"
      using True Suc.prems by (simp_all add: s history_ok_def)
    have "fst (undoN (Suc k) st) = fst (undoN k ?s)" by simp
    also have "\<dots> = (if int k < historyIndex ?s
            then Entry (history ?s ! nat (historyIndex ?s - 1 - int k)) else JNull)"
      using Suc.IH[OF ok] .
    finally show ?thesis by (auto simp: s algebra_simps)
  next
    case False
    then have s: "snd (undo st) = st" by (simp add: undo_def canUndo_def)
    have "fst (undoN (Suc k) st) = fst (undoN k st)" by (simp add: s)
    then show ?thesis using Suc.IH[OF Suc.prems] False by auto
  qed
qed

lemma history_after_60:
  "history (saveAll (map f [1..<61]) initialStore) = map f [11..<61]"
  "historyIndex (saveAll (map f [1..<61]) initialStore) = 49"
proof -
  have e: "history (initialStore :: 'a cad_store) = []"
    "historyIndex (initialStore :: 'a cad_store) = - 1"
    by (simp_all add: initialStore_def)
  show "history (saveAll (map f [1..<61]) initialStore) = map f [11..<61]"
    using saveAll_from_empty[OF e, of "map f [1..<61]"] by (simp add: drop_map)
  then show "historyIndex (saveAll (map f [1..<61]) initialStore) = 49"
    using saveAll_from_empty[OF e, of "map f [1..<61]"] by simp
qed

lemma undoN_after_60:
  "fst (undoN k (saveAll (map f [1..<61]) initialStore))
     = (if k < 49 then Entry (f (59 - k)) else JNull)"
proof -
  let ?s = "saveAll (map f [1..<61]) initialStore"
  note h = history_after_60(1)[of f] and i = history_after_60(2)[of f]
  have ok: "history_ok ?s" "0 \<le> historyIndex ?s"
    using h i by (simp_all add: history_ok_def)
  show ?thesis
  proof (cases "k < 49")
    case True
    then have "nat (48 - int k) < 50" "[11..<61] ! nat (48 - int k) = 59 - k"
      by (simp_all add: nat_diff_distrib' del: upt_rec_numeral)
    then show ?thesis using undoN_result[OF ok, of k] h i True
      by (simp add: nth_map del: upt_rec_numeral)
  next
    case False
    then show ?thesis using undoN_result[OF ok, of k] i by simp
  qed
qed

text \<open>
  Claim C3. From the empty history, 60 calls of \<^verbatim>\<open>saveState\<close> with snapshots
  \<open>f 1\<close>, ..., \<open>f 60\<close> leave exactly the 50 entries \<open>f 11\<close>, ..., \<open>f 60\<close> with the index
  at the last one. The \<open>(k+1)\<close>-th consecutive \<^verbatim>\<open>undo\<close> then returns \<open>f (59 - k)\<close> while
  \<open>k < 49\<close>, so the 49th returns \<open>f 11\<close>, and every later one returns \<^verbatim>\<open>null\<close>:
  with the snapshots numbered by themselves, none of 1 to 10 ever comes back.
\<close>

theorem history_bounds_60:
  "history (saveAll (map f [1..<61]) initialStore) = map f [11..<61]
   \<and> length (history (saveAll (map f [1..<61]) initialStore)) = 50
   \<and> historyIndex (saveAll (map f [1..<61]) initialStore) = 49
   \<and> fst (undoN k (saveAll (map f [1..<61]) initialStore))
       = (if k < 49 then Entry (f (59 - k)) else JNull)
   \<and> fst (undoN 48 (saveAll (map f [1..<61]) initialStore)) = Entry (f 11)
   \<and> fst (undoN k (saveAll [1..<61] initialStore)) \<notin> Entry ` {1..10::nat}"
proof -
  have a: "history (saveAll (map f [1..<61]) initialStore) = map f [11..<61]"
    by (rule history_after_60(1))
  have b: "length (history (saveAll (map f [1..<61]) initialStore)) = 50"
    unfolding a by simp
  have c: "historyIndex (saveAll (map f [1..<61]) initialStore) = 49"
    by (rule history_after_60(2))
  have d: "fst (undoN k (saveAll (map f [1..<61]) initialStore))
       = (if k < 49 then Entry (f (59 - k)) else JNull)"
    by (rule undoN_after_60)
  have e: "fst (undoN 48 (saveAll (map f [1..<61]) initialStore)) = Entry (f 11)"
    using undoN_after_60[of 48 f] by simp
  have "fst (undoN k (saveAll (map (\<lambda>n. n) [1..<61]) initialStore))
          = (if k < 49 then Entry (59 - k) else JNull)"
    by (rule undoN_after_60)
  then have g: "fst (undoN k (saveAll [1..<61] initialStore)) \<notin> Entry ` {1..10::nat}"
    by (auto simp del: upt_rec_numeral)
  from a b c d e g show ?thesis by blast
qed

text \<open>The index stays inside the history under every operation of the store.\<close>

lemma history_ok_initial: "history_ok initialStore"
  by (simp add: history_ok_def initialStore_def)

lemma history_ok_saveState:
  assumes "history_ok st"
  shows "history_ok (saveState img st)"
proof -
  have "history (saveState img st) \<noteq> []"
    by (simp add: saveState_def Let_def)
  then have "0 < int (length (history (saveState img st)))" by simp
  then show ?thesis
    using saveState_index_at_end[OF assms, of img] by (simp add: history_ok_def)
qed

lemma history_ok_undo: "history_ok st \<Longrightarrow> history_ok (snd (undo st))"
  by (auto simp: undo_def canUndo_def history_ok_def Let_def)

lemma history_ok_redo: "history_ok st \<Longrightarrow> history_ok (snd (redo st))"
  by (auto simp: redo_def canRedo_def history_ok_def Let_def)

lemma history_ok_clearHistory: "history_ok (clearHistory st)"
  by (simp add: clearHistory_def history_ok_def)

text \<open>
  Claim C9. With the index inside the history (or \<open>-1\<close>), \<^verbatim>\<open>undo\<close> returns \<^verbatim>\<open>null\<close>
  and changes nothing exactly when \<open>historyIndex \<le> 0\<close>, and otherwise decrements the
  index and returns the entry there; \<^verbatim>\<open>redo\<close> returns \<^verbatim>\<open>null\<close> and changes nothing
  exactly when \<open>historyIndex \<ge> length - 1\<close>, and otherwise increments the index and
  returns the entry there. Neither has a failing branch.
\<close>

theorem undo_redo_boundaries:
  assumes "history_ok st"
  shows "(historyIndex st \<le> 0 \<longrightarrow> undo st = (JNull, st))
       \<and> (historyIndex st > 0 \<longrightarrow>
            undo st = (Entry (history st ! nat (historyIndex st - 1)),
                       st\<lparr>historyIndex := historyIndex st - 1\<rparr>))
       \<and> ((fst (undo st) = JNull) = (historyIndex st \<le> 0))
       \<and> (historyIndex st \<ge> int (length (history st)) - 1 \<longrightarrow> redo st = (JNull, st))
       \<and> (historyIndex st < int (length (history st)) - 1 \<longrightarrow>
            redo st = (Entry (history st ! nat (historyIndex st + 1)),
                       st\<lparr>historyIndex := historyIndex st + 1\<rparr>))
       \<and> ((fst (redo st) = JNull) = (historyIndex st \<ge> int (length (history st)) - 1))"
  using assms
  by (auto simp: undo_def redo_def canUndo_def canRedo_def js_index_def history_ok_def Let_def)

text \<open>The history \<open>[A, B, C]\<close> at index 2: \<^verbatim>\<open>undo\<close> returns \<open>B\<close>, \<^verbatim>\<open>redo\<close> is a no-op.\<close>

theorem undo_redo_boundaries_witness:
  "history_ok (initialStore\<lparr>history := [''A'', ''B'', ''C''], historyIndex := 2\<rparr>)
   \<and> undo (initialStore\<lparr>history := [''A'', ''B'', ''C''], historyIndex := 2\<rparr>)
       = (Entry ''B'', initialStore\<lparr>history := [''A'', ''B'', ''C''], historyIndex := 1\<rparr>)
   \<and> redo (initialStore\<lparr>history := [''A'', ''B'', ''C''], historyIndex := 2\<rparr>)
       = (JNull, initialStore\<lparr>history := [''A'', ''B'', ''C''], historyIndex := 2\<rparr>)"
proof -
  have ok: "history_ok (initialStore\<lparr>history := [''A'', ''B'', ''C''], historyIndex := 2\<rparr>)"
    by (simp add: history_ok_def)
  show ?thesis using ok undo_redo_boundaries[OF ok] by simp
qed

text \<open>
  Claim C10. After \<^verbatim>\<open>saveState(snapshot)\<close> on a store whose index is inside the history
  (or \<open>-1\<close>), the index is \<open>length - 1\<close>, the entry there is the snapshot just pushed,
  \<^verbatim>\<open>canRedo\<close> is false, and \<open>0 \<le> historyIndex < length\<close> holds of the now non-empty
  history.
\<close>

theorem saveState_postcondition:
  assumes "history_ok st"
  shows "historyIndex (saveState img st) = int (length (history (saveState img st))) - 1
       \<and> js_index (history (saveState img st)) (historyIndex (saveState img st)) = Entry img
       \<and> \<not> canRedo (saveState img st)
       \<and> history (saveState img st) \<noteq> []
       \<and> 0 \<le> historyIndex (saveState img st)
       \<and> historyIndex (saveState img st) < int (length (history (saveState img st)))"
  using assms
  by (auto simp: saveState_def history_ok_def js_slice0_def js_index_def canRedo_def
      MAX_HISTORY_SIZE_def Let_def nth_append)

text \<open>A push after two undos on \<open>[A, B, C]\<close> drops the redo branch \<open>B, C\<close>.\<close>

theorem saveState_postcondition_witness:
  "history_ok (initialStore\<lparr>history := [''A'', ''B'', ''C''], historyIndex := 0\<rparr>)
   \<and> history (saveState ''D'' (initialStore\<lparr>history := [''A'', ''B'', ''C''], historyIndex := 0\<rparr>))
       = [''A'', ''D'']
   \<and> historyIndex (saveState ''D'' (initialStore\<lparr>history := [''A'', ''B'', ''C''], historyIndex := 0\<rparr>)) = 1
   \<and> \<not> canRedo (saveState ''D'' (initialStore\<lparr>history := [''A'', ''B'', ''C''], historyIndex := 0\<rparr>))"
proof -
  have ok: "history_ok (initialStore\<lparr>history := [''A'', ''B'', ''C''], historyIndex := 0\<rparr>)"
    by (simp add: history_ok_def)
  have h: "history (saveState ''D'' (initialStore\<lparr>history := [''A'', ''B'', ''C''], historyIndex := 0\<rparr>))
       = [''A'', ''D'']"
    by (simp add: saveState_def js_slice0_def MAX_HISTORY_SIZE_def Let_def)
  show ?thesis using ok h saveState_postcondition[OF ok, of "''D''"] by simp
qed

section \<open>Double arithmetic: lemmas\<close>

lemma pow2_powr: "pow2 e = 2 powr (of_int e)"
  by (simp add: pow2_def powr_real_of_int field_simps)

lemma pow2_pos: "0 < pow2 e"
  by (simp add: pow2_powr)

lemma pow2_add: "pow2 (a + b) = pow2 a * pow2 b"
  by (simp add: pow2_powr powr_add)

lemma round_even_error: "\<bar>of_int (round_even t) - t\<bar> \<le> 1 / 2"
  unfolding round_even_def Let_def by (auto simp: abs_le_iff)

lemma round_even_ge:
  assumes "of_int k \<le> t"
  shows "k \<le> round_even t"
proof -
  have "k \<le> \<lfloor>t\<rfloor>" using assms by (simp add: le_floor_iff)
  then show ?thesis unfolding round_even_def Let_def by auto
qed

lemma round_even_le:
  assumes "t \<le> of_int k"
  shows "round_even t \<le> k"
proof (cases "t = of_int k")
  case True
  then show ?thesis by (simp add: round_even_def)
next
  case False
  then have "t < of_int k" using assms by simp
  then have "\<lfloor>t\<rfloor> + 1 \<le> k" using floor_less_iff[of t k] by linarith
  then show ?thesis unfolding round_even_def Let_def by auto
qed

lemma floor_log2_bounds:
  assumes "x \<noteq> 0"
  shows "pow2 \<lfloor>log 2 \<bar>x\<bar>\<rfloor> \<le> \<bar>x\<bar>" and "\<bar>x\<bar> < pow2 (\<lfloor>log 2 \<bar>x\<bar>\<rfloor> + 1)"
proof -
  have pos: "0 < \<bar>x\<bar>" using assms by simp
  have "\<lfloor>log 2 \<bar>x\<bar>\<rfloor> = \<lfloor>log 2 \<bar>x\<bar>\<rfloor>" ..
  then have "2 powr (of_int \<lfloor>log 2 \<bar>x\<bar>\<rfloor>) \<le> \<bar>x\<bar>
      \<and> \<bar>x\<bar> < 2 powr (of_int (\<lfloor>log 2 \<bar>x\<bar>\<rfloor> + 1))"
    using floor_log_eq_powr_iff[OF pos, of 2 "\<lfloor>log 2 \<bar>x\<bar>\<rfloor>"] by simp
  then show "pow2 \<lfloor>log 2 \<bar>x\<bar>\<rfloor> \<le> \<bar>x\<bar>" and "\<bar>x\<bar> < pow2 (\<lfloor>log 2 \<bar>x\<bar>\<rfloor> + 1)"
    by (simp_all add: pow2_powr)
qed

lemma floor_log2_eq:
  assumes "pow2 e \<le> \<bar>x\<bar>" and "\<bar>x\<bar> < pow2 (e + 1)"
  shows "\<lfloor>log 2 \<bar>x\<bar>\<rfloor> = e"
proof -
  have pos: "0 < \<bar>x\<bar>" using assms(1) pow2_pos[of e] by linarith
  show ?thesis
    using floor_log_eq_powr_iff[OF pos, of 2 e] assms by (simp add: pow2_powr)
qed

text \<open>The rounded value of a non-zero \<open>x\<close> with binary exponent \<open>e\<close>.\<close>

lemma rounded_error:
  assumes "pow2 e \<le> \<bar>x\<bar>"
  defines "y \<equiv> of_int (round_even (x / pow2 (e - 52))) * pow2 (e - 52)"
  shows "\<bar>y - x\<bar> \<le> \<bar>x\<bar> / 2 ^ 53" and "\<bar>y - x\<bar> \<le> \<bar>y\<bar> / 2 ^ 53"
proof -
  let ?q = "pow2 (e - 52)"
  have q: "0 < ?q" by (rule pow2_pos)
  have p52: "pow2 52 = 2 ^ 52" by (simp add: pow2_def)
  have "e - 52 + 52 = e" by simp
  then have qe: "pow2 e = ?q * 2 ^ 52"
    using pow2_add[of "e - 52" 52] by (simp only: p52)
  have "y - x = ?q * (of_int (round_even (x / ?q)) - x / ?q)"
    using q by (simp add: y_def field_simps)
  then have "\<bar>y - x\<bar> = ?q * \<bar>of_int (round_even (x / ?q)) - x / ?q\<bar>"
    using q by (simp add: abs_mult)
  also have "\<dots> \<le> ?q * (1 / 2)"
    using q round_even_error[of "x / ?q"] by (intro mult_left_mono) simp_all
  finally have err: "\<bar>y - x\<bar> \<le> ?q / 2" by simp
  have "?q / 2 = pow2 e / 2 ^ 53" by (simp add: qe)
  also have "\<dots> \<le> \<bar>x\<bar> / 2 ^ 53" using assms(1) by (simp add: divide_right_mono)
  finally show "\<bar>y - x\<bar> \<le> \<bar>x\<bar> / 2 ^ 53" using err by linarith
  have big: "2 ^ 52 \<le> \<bar>x / ?q\<bar>"
    using assms(1) q by (simp add: qe field_simps)
  have "(2 :: int) ^ 52 \<le> \<bar>round_even (x / ?q)\<bar>"
  proof (cases "0 \<le> x / ?q")
    case True
    then have "of_int (2 ^ 52) \<le> x / ?q" using big by simp
    then have "2 ^ 52 \<le> round_even (x / ?q)" by (rule round_even_ge)
    then show ?thesis by simp
  next
    case False
    then have "x / ?q \<le> of_int (- (2 ^ 52))" using big by simp
    then have "round_even (x / ?q) \<le> - (2 ^ 52)" by (rule round_even_le)
    then show ?thesis by simp
  qed
  then have "(2 :: real) ^ 52 \<le> \<bar>of_int (round_even (x / ?q))\<bar>"
    by (metis of_int_abs of_int_le_iff of_int_numeral of_int_power)
  then have "2 ^ 52 * ?q \<le> \<bar>of_int (round_even (x / ?q))\<bar> * ?q"
    using q by (intro mult_right_mono) simp_all
  then have "pow2 e \<le> \<bar>y\<bar>"
    using q by (simp add: y_def abs_mult qe mult.commute)
  then have "pow2 e / 2 ^ 53 \<le> \<bar>y\<bar> / 2 ^ 53" by (simp add: divide_right_mono)
  moreover have "?q / 2 = pow2 e / 2 ^ 53" by (simp add: qe)
  ultimately show "\<bar>y - x\<bar> \<le> \<bar>y\<bar> / 2 ^ 53" using err by linarith
qed

lemma fl_error:
  assumes "fl x = Some y"
  shows "\<bar>y - x\<bar> \<le> \<bar>x\<bar> / 2 ^ 53" and "\<bar>y - x\<bar> \<le> \<bar>y\<bar> / 2 ^ 53"
proof -
  show "\<bar>y - x\<bar> \<le> \<bar>x\<bar> / 2 ^ 53"
  proof (cases "x = 0")
    case True
    then show ?thesis using assms by (simp add: fl_def)
  next
    case False
    then have "y = of_int (round_even (x / pow2 (\<lfloor>log 2 \<bar>x\<bar>\<rfloor> - 52))) * pow2 (\<lfloor>log 2 \<bar>x\<bar>\<rfloor> - 52)"
      using assms by (simp add: fl_def Let_def split: if_splits)
    then show ?thesis using rounded_error(1)[OF floor_log2_bounds(1)[OF False]] by simp
  qed
  show "\<bar>y - x\<bar> \<le> \<bar>y\<bar> / 2 ^ 53"
  proof (cases "x = 0")
    case True
    then show ?thesis using assms by (simp add: fl_def)
  next
    case False
    then have "y = of_int (round_even (x / pow2 (\<lfloor>log 2 \<bar>x\<bar>\<rfloor> - 52))) * pow2 (\<lfloor>log 2 \<bar>x\<bar>\<rfloor> - 52)"
      using assms by (simp add: fl_def Let_def split: if_splits)
    then show ?thesis using rounded_error(2)[OF floor_log2_bounds(1)[OF False]] by simp
  qed
qed

lemma pow2_mono: "a \<le> b \<Longrightarrow> pow2 a \<le> pow2 b"
  by (simp add: pow2_powr)

lemma fl_eval:
  assumes "pow2 e \<le> \<bar>x\<bar>" and "\<bar>x\<bar> < pow2 (e + 1)" and "- 1022 \<le> e" and "e \<le> 1022"
  shows "fl x = Some (of_int (round_even (x / pow2 (e - 52))) * pow2 (e - 52))"
proof -
  let ?q = "pow2 (e - 52)"
  let ?n = "round_even (x / ?q)"
  have q: "0 < ?q" by (rule pow2_pos)
  have x0: "x \<noteq> 0" using assms(1) pow2_pos[of e] by auto
  have ex: "\<lfloor>log 2 \<bar>x\<bar>\<rfloor> = e" by (rule floor_log2_eq[OF assms(1,2)])
  have p53: "pow2 53 = 2 ^ 53" by (simp add: pow2_def)
  have "e - 52 + 53 = e + 1" by simp
  then have qe: "pow2 (e + 1) = ?q * 2 ^ 53"
    using pow2_add[of "e - 52" 53] by (simp only: p53)
  have "\<bar>x\<bar> < ?q * 2 ^ 53" using assms(2) unfolding qe .
  then have "\<bar>x / ?q\<bar> \<le> 2 ^ 53" using q by (simp add: field_simps)
  then have "x / ?q \<le> 2 ^ 53" and "- (2 ^ 53) \<le> x / ?q"
    by (simp_all only: abs_le_iff) linarith+
  then have up: "x / ?q \<le> of_int (2 ^ 53)" and lo: "of_int (- (2 ^ 53)) \<le> x / ?q"
    by simp_all
  have "?n \<le> 2 ^ 53" by (rule round_even_le[OF up])
  moreover have "- (2 ^ 53) \<le> ?n" by (rule round_even_ge[OF lo])
  ultimately have "\<bar>?n\<bar> \<le> 2 ^ 53" by simp
  then have "\<bar>of_int ?n :: real\<bar> \<le> 2 ^ 53"
    by (metis of_int_abs of_int_le_iff of_int_numeral of_int_power)
  then have "\<bar>of_int ?n\<bar> * ?q \<le> 2 ^ 53 * ?q" using q by (intro mult_right_mono) simp_all
  then have "\<bar>of_int ?n * ?q\<bar> \<le> pow2 (e + 1)"
    unfolding qe using q by (simp add: abs_mult mult.commute)
  also have "\<dots> \<le> pow2 1023" using assms(4) by (intro pow2_mono) simp
  also have "\<dots> \<le> maxDouble" by (simp add: pow2_def maxDouble_def)
  finally have "\<not> maxDouble < \<bar>of_int ?n * ?q\<bar>" by simp
  then show ?thesis using x0 assms(3) by (simp add: fl_def ex Let_def)
qed

text \<open>\<open>fl\<close> is defined on the whole normal range below \<open>2 ^ 1023\<close>.\<close>

lemma pow2_less_cancel: "pow2 a < pow2 b \<Longrightarrow> a < b"
  by (simp add: pow2_powr)

lemma fl_defined:
  assumes "pow2 (- 1022) \<le> \<bar>x\<bar>" and "\<bar>x\<bar> < pow2 1023"
  shows "\<exists>y. fl x = Some y"
proof -
  have x0: "x \<noteq> 0" using assms(1) pow2_pos[of "- 1022"] by auto
  let ?e = "\<lfloor>log 2 \<bar>x\<bar>\<rfloor>"
  note b = floor_log2_bounds[OF x0]
  have "pow2 (- 1022) < pow2 (?e + 1)" using assms(1) b(2) by linarith
  then have lo: "- 1022 \<le> ?e" using pow2_less_cancel[of "- 1022" "?e + 1"] by simp
  have "pow2 ?e < pow2 1023" using assms(2) b(1) by linarith
  then have hi: "?e \<le> 1022" using pow2_less_cancel[of ?e 1023] by simp
  show ?thesis using fl_eval[OF b lo hi] by blast
qed

text \<open>The doubles of the literals \<^verbatim>\<open>1.2\<close> and \<^verbatim>\<open>0.1\<close>, and of the numbers in the
  examples.\<close>

lemma fl_literals:
  "fl (12 / 10) = Some (5404319552844595 / 2 ^ 52)"
  "fl (1 / 10) = Some (3602879701896397 / 2 ^ 55)"
proof -
  show "fl (12 / 10) = Some (5404319552844595 / 2 ^ 52)"
    using fl_eval[of 0 "12 / 10"] by (simp add: pow2_def round_even_def)
  show "fl (1 / 10) = Some (3602879701896397 / 2 ^ 55)"
    using fl_eval[of "- 4" "1 / 10"] by (simp add: pow2_def round_even_def)
qed

lemma fl_zero: "fl 0 = Some 0"
  by (simp add: fl_def)

lemma fl_small_values:
  "fl 1 = Some 1" "fl 2 = Some 2" "fl 3 = Some 3"
proof -
  show "fl 1 = Some 1" using fl_eval[of 0 1] by (simp add: pow2_def round_even_def)
  show "fl 2 = Some 2" using fl_eval[of 1 2] by (simp add: pow2_def round_even_def)
  show "fl 3 = Some 3" using fl_eval[of 1 3] by (simp add: pow2_def round_even_def)
qed

lemma fl_wheel_values:
  "fl 7 = Some 7"
  "fl (5404319552844595 / 2 ^ 52) = Some (5404319552844595 / 2 ^ 52)"
  "fl (7 * (5404319552844595 / 2 ^ 52)) = Some (4728779608739021 / 2 ^ 49)"
  "fl (7 - 4728779608739021 / 2 ^ 49) = Some (- (788129934789837 / 2 ^ 49))"
  "fl (4728779608739021 / 2 ^ 49) = Some (4728779608739021 / 2 ^ 49)"
  "fl (4728779608739021 / 2 ^ 49 / (5404319552844595 / 2 ^ 52)) = Some (7 + 1 / 2 ^ 50)"
proof -
  show "fl 7 = Some 7"
    using fl_eval[of 2 7] by (simp add: pow2_def round_even_def)
  show "fl (5404319552844595 / 2 ^ 52) = Some (5404319552844595 / 2 ^ 52)"
    using fl_eval[of 0 "5404319552844595 / 2 ^ 52"] by (simp add: pow2_def round_even_def)
  show "fl (7 * (5404319552844595 / 2 ^ 52)) = Some (4728779608739021 / 2 ^ 49)"
    using fl_eval[of 3 "7 * (5404319552844595 / 2 ^ 52)"] by (simp add: pow2_def round_even_def)
  show "fl (7 - 4728779608739021 / 2 ^ 49) = Some (- (788129934789837 / 2 ^ 49))"
    using fl_eval[of 0 "7 - 4728779608739021 / 2 ^ 49"] by (simp add: pow2_def round_even_def)
  show "fl (4728779608739021 / 2 ^ 49) = Some (4728779608739021 / 2 ^ 49)"
    using fl_eval[of 3 "4728779608739021 / 2 ^ 49"] by (simp add: pow2_def round_even_def)
  show "fl (4728779608739021 / 2 ^ 49 / (5404319552844595 / 2 ^ 52)) = Some (7 + 1 / 2 ^ 50)"
    using fl_eval[of 2 "4728779608739021 / 2 ^ 49 / (5404319552844595 / 2 ^ 52)"]
    by (simp add: pow2_def round_even_def)
qed

lemma fl_roundtrip_values:
  "fl (3602879701896397 / 2 ^ 55 * 3) = Some (1351079888211149 / 2 ^ 52)"
  "fl (1351079888211149 / 2 ^ 52) = Some (1351079888211149 / 2 ^ 52)"
  "fl (1351079888211149 / 2 ^ 52 / 3) = Some (7205759403792795 / 2 ^ 56)"
  "fl 21 = Some 21"
proof -
  show "fl (3602879701896397 / 2 ^ 55 * 3) = Some (1351079888211149 / 2 ^ 52)"
    using fl_eval[of "- 2" "3602879701896397 / 2 ^ 55 * 3"] by (simp add: pow2_def round_even_def)
  show "fl (1351079888211149 / 2 ^ 52) = Some (1351079888211149 / 2 ^ 52)"
    using fl_eval[of "- 2" "1351079888211149 / 2 ^ 52"] by (simp add: pow2_def round_even_def)
  show "fl (1351079888211149 / 2 ^ 52 / 3) = Some (7205759403792795 / 2 ^ 56)"
    using fl_eval[of "- 4" "1351079888211149 / 2 ^ 52 / 3"] by (simp add: pow2_def round_even_def)
  show "fl 21 = Some 21"
    using fl_eval[of 4 21] by (simp add: pow2_def round_even_def)
qed

lemma fl_huge_values:
  "fl (1 + 10 ^ 17) = Some (10 ^ 17)"
  "fl (2 + 10 ^ 17) = Some (10 ^ 17)"
proof -
  show "fl (1 + 10 ^ 17) = Some (10 ^ 17)"
    using fl_eval[of 56 "1 + 10 ^ 17"] by (simp add: pow2_def round_even_def)
  show "fl (2 + 10 ^ 17) = Some (10 ^ 17)"
    using fl_eval[of 56 "2 + 10 ^ 17"] by (simp add: pow2_def round_even_def)
qed

lemma fl_clamp_values:
  "fl 5 = Some 5" "fl 10 = Some 10" "fl 45 = Some 45" "fl 50 = Some 50" "fl 90 = Some 90"
  "fl 100 = Some 100"
  "fl (9 * (5404319552844595 / 2 ^ 52)) = Some (6079859496950169 / 2 ^ 49)"
proof -
  show "fl 5 = Some 5" using fl_eval[of 2 5] by (simp add: pow2_def round_even_def)
  show "fl 10 = Some 10" using fl_eval[of 3 10] by (simp add: pow2_def round_even_def)
  show "fl 45 = Some 45" using fl_eval[of 5 45] by (simp add: pow2_def round_even_def)
  show "fl 50 = Some 50" using fl_eval[of 5 50] by (simp add: pow2_def round_even_def)
  show "fl 90 = Some 90" using fl_eval[of 6 90] by (simp add: pow2_def round_even_def)
  show "fl 100 = Some 100" using fl_eval[of 6 100] by (simp add: pow2_def round_even_def)
  show "fl (9 * (5404319552844595 / 2 ^ 52)) = Some (6079859496950169 / 2 ^ 49)"
    using fl_eval[of 3 "9 * (5404319552844595 / 2 ^ 52)"] by (simp add: pow2_def round_even_def)
qed

section \<open>Coordinate transform: theorems\<close>

lemma getMousePos_exact_eq:
  "zoomLevel st \<noteq> 0 \<Longrightarrow> getMousePos exact ev st = Some (getMousePos_exact ev st)"
  by (simp add: getMousePos_def getMousePos_exact_def exact_def subR_def divR_def)

text \<open>
  The error of the four roundings on the way from a world coordinate to the screen and
  back: a product, a sum or difference with the pan, the difference with the pan again,
  and the quotient.
\<close>

lemma four_roundings_lin:
  fixes d eX ea ec eb e1 e2 e3 e4 T :: real
  assumes "d \<le> e4 + e3 + e2 + e1" and "ea \<le> eX + e1" and "ec \<le> ea + e2" and "eb \<le> ec + e3"
    and "e1 \<le> eX / 2 ^ 53" and "e2 \<le> T / 2 ^ 53" and "e3 \<le> ec / 2 ^ 53" and "e4 \<le> eb / 2 ^ 53"
    and "0 \<le> eX" and "0 \<le> e2"
  shows "d \<le> eX / 2 ^ 51 + T / 2 ^ 52"
proof -
  have T: "0 \<le> T" using assms(6,10) by simp
  have a: "ea \<le> eX + eX / 2 ^ 53" using assms(2,5) by linarith
  have c: "ec \<le> eX + eX / 2 ^ 53 + T / 2 ^ 53" using a assms(3,6) by linarith
  have c0: "ec \<le> 2 * eX + T" using c assms(9) T by simp
  have b: "eb \<le> ec + ec / 2 ^ 53" using assms(4,7) by linarith
  have d1: "d \<le> eb / 2 ^ 53 + ec / 2 ^ 53 + T / 2 ^ 53 + eX / 2 ^ 53"
    using assms(1,5,6,7,8) by linarith
  have "eb / 2 ^ 53 \<le> (ec + ec / 2 ^ 53) / 2 ^ 53" using b by (simp add: divide_right_mono)
  then have d2: "d \<le> 2 * (ec / 2 ^ 53) + ec / 2 ^ 53 / 2 ^ 53 + T / 2 ^ 53 + eX / 2 ^ 53"
    using d1 by (simp add: add_divide_distrib)
  have "ec / 2 ^ 53 \<le> (eX + eX / 2 ^ 53 + T / 2 ^ 53) / 2 ^ 53"
    using c by (simp add: divide_right_mono)
  moreover have "ec / 2 ^ 53 / 2 ^ 53 \<le> (2 * eX + T) / 2 ^ 53 / 2 ^ 53"
    using c0 by (simp add: divide_right_mono)
  ultimately have "d \<le> 2 * ((eX + eX / 2 ^ 53 + T / 2 ^ 53) / 2 ^ 53)
      + (2 * eX + T) / 2 ^ 53 / 2 ^ 53 + T / 2 ^ 53 + eX / 2 ^ 53"
    using d2 by linarith
  also have "\<dots> \<le> eX / 2 ^ 51 + T / 2 ^ 52"
    using assms(9) T by (simp add: field_simps)
  finally show ?thesis .
qed

lemma four_roundings:
  fixes a X c b W T :: real
  assumes "\<bar>a - X\<bar> \<le> \<bar>X\<bar> / 2 ^ 53" and "\<bar>c - a\<bar> \<le> T / 2 ^ 53"
    and "\<bar>b - c\<bar> \<le> \<bar>c\<bar> / 2 ^ 53" and "\<bar>W - b\<bar> \<le> \<bar>b\<bar> / 2 ^ 53"
  shows "\<bar>W - X\<bar> \<le> \<bar>X\<bar> / 2 ^ 51 + T / 2 ^ 52"
proof -
  have ta: "\<bar>a\<bar> \<le> \<bar>X\<bar> + \<bar>a - X\<bar>" by linarith
  have tc: "\<bar>c\<bar> \<le> \<bar>a\<bar> + \<bar>c - a\<bar>" by linarith
  have tb: "\<bar>b\<bar> \<le> \<bar>c\<bar> + \<bar>b - c\<bar>" by linarith
  have tw: "\<bar>W - X\<bar> \<le> \<bar>W - b\<bar> + \<bar>b - c\<bar> + \<bar>c - a\<bar> + \<bar>a - X\<bar>" by linarith
  show ?thesis
    by (rule four_roundings_lin[OF tw ta tc tb assms(1) assms(2) assms(3) assms(4)
          abs_ge_zero abs_ge_zero])
qed

lemma roundtrip_error:
  fixes z a x c T b w :: real
  assumes z: "0 < z"
    and a: "\<bar>a - x * z\<bar> \<le> \<bar>x * z\<bar> / 2 ^ 53"
    and c: "\<bar>c - a\<bar> \<le> T / 2 ^ 53"
    and b: "\<bar>b - c\<bar> \<le> \<bar>c\<bar> / 2 ^ 53"
    and w: "\<bar>w - b / z\<bar> \<le> \<bar>b / z\<bar> / 2 ^ 53"
  shows "\<bar>w - x\<bar> \<le> \<bar>x\<bar> / 2 ^ 51 + T / z / 2 ^ 52"
proof -
  have az: "\<bar>z\<bar> = z" using z by simp
  have "(w - b / z) * z = w * z - b" using z by (simp add: left_diff_distrib)
  then have l: "\<bar>w - b / z\<bar> * z = \<bar>w * z - b\<bar>"
    using abs_mult[of "w - b / z" z] by (simp only: az)
  have "b / z * z = b" using z by simp
  then have "\<bar>b / z\<bar> * z = \<bar>b\<bar>" using abs_mult[of "b / z" z] by (simp only: az)
  then have r: "\<bar>b / z\<bar> / 2 ^ 53 * z = \<bar>b\<bar> / 2 ^ 53" by simp
  have "\<bar>w - b / z\<bar> * z \<le> \<bar>b / z\<bar> / 2 ^ 53 * z"
    using z by (intro mult_right_mono[OF w]) simp
  then have w': "\<bar>w * z - b\<bar> \<le> \<bar>b\<bar> / 2 ^ 53" by (simp only: l r)
  have m: "\<bar>w * z - x * z\<bar> \<le> \<bar>x * z\<bar> / 2 ^ 51 + T / 2 ^ 52"
    by (rule four_roundings[OF a c b w'])
  have "(w - x) * z = w * z - x * z" by (simp add: left_diff_distrib)
  then have l2: "\<bar>w * z - x * z\<bar> = \<bar>w - x\<bar> * z"
    using abs_mult[of "w - x" z] by (simp only: az)
  have x2: "\<bar>x * z\<bar> = \<bar>x\<bar> * z" using abs_mult[of x z] by (simp only: az)
  have "(\<bar>x\<bar> / 2 ^ 51 + T / z / 2 ^ 52) * z = \<bar>x\<bar> * z / 2 ^ 51 + T / 2 ^ 52"
    using z by (simp add: distrib_right)
  then have "\<bar>w - x\<bar> * z \<le> (\<bar>x\<bar> / 2 ^ 51 + T / z / 2 ^ 52) * z"
    using m by (simp only: l2 x2)
  then show ?thesis using z by (simp only: mult_le_cancel_right_pos)
qed

lemma coordinate_roundtrip:
  assumes "0 < z" and "mulR fl x z = Some a" and "addR fl a p = Some s"
    and "subR fl s p = Some d" and "divR fl d z = Some w"
  shows "\<bar>w - x\<bar> \<le> \<bar>x\<bar> / 2 ^ 51 + \<bar>s\<bar> / z / 2 ^ 52"
proof -
  have "fl (x * z) = Some a" using assms(2) by (simp add: mulR_def)
  then have a: "\<bar>a - x * z\<bar> \<le> \<bar>x * z\<bar> / 2 ^ 53" by (rule fl_error(1))
  have "fl (a + p) = Some s" using assms(3) by (simp add: addR_def)
  then have "\<bar>s - (a + p)\<bar> \<le> \<bar>s\<bar> / 2 ^ 53" by (rule fl_error(2))
  moreover have "s - p - a = s - (a + p)" by simp
  ultimately have c: "\<bar>s - p - a\<bar> \<le> \<bar>s\<bar> / 2 ^ 53" by (simp only:)
  have "fl (s - p) = Some d" using assms(4) by (simp add: subR_def)
  then have b: "\<bar>d - (s - p)\<bar> \<le> \<bar>s - p\<bar> / 2 ^ 53" by (rule fl_error(1))
  have "fl (d / z) = Some w" using assms(1,5) by (simp add: divR_def)
  then have w: "\<bar>w - d / z\<bar> \<le> \<bar>d / z\<bar> / 2 ^ 53" by (rule fl_error(1))
  show ?thesis by (rule roundtrip_error[OF assms(1) a c b w])
qed

lemma zoom_coordinate:
  assumes "0 < z" and "mulR fl w z = Some t" and "subR fl m t = Some p"
    and "subR fl m p = Some d" and "divR fl d z = Some w'"
  shows "\<bar>w' - w\<bar> \<le> \<bar>w\<bar> / 2 ^ 51 + \<bar>p\<bar> / z / 2 ^ 52"
proof -
  have "fl (w * z) = Some t" using assms(2) by (simp add: mulR_def)
  then have a: "\<bar>t - w * z\<bar> \<le> \<bar>w * z\<bar> / 2 ^ 53" by (rule fl_error(1))
  have "fl (m - t) = Some p" using assms(3) by (simp add: subR_def)
  then have "\<bar>p - (m - t)\<bar> \<le> \<bar>p\<bar> / 2 ^ 53" by (rule fl_error(2))
  moreover have "\<bar>m - p - t\<bar> = \<bar>p - (m - t)\<bar>" by (simp add: abs_if)
  ultimately have c: "\<bar>m - p - t\<bar> \<le> \<bar>p\<bar> / 2 ^ 53" by (simp only:)
  have "fl (m - p) = Some d" using assms(4) by (simp add: subR_def)
  then have b: "\<bar>d - (m - p)\<bar> \<le> \<bar>m - p\<bar> / 2 ^ 53" by (rule fl_error(1))
  have "fl (d / z) = Some w'" using assms(1,5) by (simp add: divR_def)
  then have w: "\<bar>w' - d / z\<bar> \<le> \<bar>d / z\<bar> / 2 ^ 53" by (rule fl_error(1))
  show ?thesis by (rule roundtrip_error[OF assms(1) a c b w])
qed

lemma getMousePos_Some:
  assumes "getMousePos rnd ev st = Some p"
  obtains dx dy where "subR rnd (rawX ev) (px (panOffset st)) = Some dx"
    and "divR rnd dx (zoomLevel st) = Some (px p)"
    and "subR rnd (rawY ev) (py (panOffset st)) = Some dy"
    and "divR rnd dy (zoomLevel st) = Some (py p)"
  using assms by (auto simp: getMousePos_def bind_eq_Some_conv)

lemma drawLineWithConstantWidth_Some:
  assumes "drawLineWithConstantWidth rnd x1 y1 x2 y2 color width pan zoom = Some sk"
  obtains ax1 ay1 ax2 ay2 where "mulR rnd x1 zoom = Some ax1"
    and "addR rnd ax1 (px pan) = Some (px (move_to sk))"
    and "mulR rnd y1 zoom = Some ay1"
    and "addR rnd ay1 (py pan) = Some (py (move_to sk))"
    and "mulR rnd x2 zoom = Some ax2"
    and "addR rnd ax2 (px pan) = Some (px (line_to sk))"
    and "mulR rnd y2 zoom = Some ay2"
    and "addR rnd ay2 (py pan) = Some (py (line_to sk))"
  using assms by (auto simp: drawLineWithConstantWidth_def bind_eq_Some_conv)

lemma onWheel_Some:
  assumes "onWheel rnd ev st = Some st'"
  obtains dx worldX dy worldY k zmin newZoom tx ty t where
    "subR rnd (rawX ev) (px (panOffset st)) = Some dx"
    and "divR rnd dx (zoomLevel st) = Some worldX"
    and "subR rnd (rawY ev) (py (panOffset st)) = Some dy"
    and "divR rnd dy (zoomLevel st) = Some worldY"
    and "rnd (12 / 10) = Some k" and "rnd zoomMin = Some zmin"
    and "if deltaY ev < 0 then mulR rnd (zoomLevel st) k = Some t \<and> newZoom = min t zoomMax
         else divR rnd (zoomLevel st) k = Some t \<and> newZoom = max t zmin"
    and "mulR rnd worldX newZoom = Some tx"
    and "subR rnd (rawX ev) tx = Some (px (panOffset st'))"
    and "mulR rnd worldY newZoom = Some ty"
    and "subR rnd (rawY ev) ty = Some (py (panOffset st'))"
    and "zoomLevel st' = max zmin (min newZoom zoomMax)"
proof -
  from assms obtain dx worldX dy worldY k zmin newZoom st1 tx npx ty npy where
    a1: "subR rnd (rawX ev) (px (panOffset st)) = Some dx"
    and a2: "divR rnd dx (zoomLevel st) = Some worldX"
    and a3: "subR rnd (rawY ev) (py (panOffset st)) = Some dy"
    and a4: "divR rnd dy (zoomLevel st) = Some worldY"
    and a5: "rnd (12 / 10) = Some k" and a6: "rnd zoomMin = Some zmin"
    and a7: "(if deltaY ev < 0
              then do { t \<leftarrow> mulR rnd (zoomLevel st) k; Some (min t zoomMax) }
              else do { t \<leftarrow> divR rnd (zoomLevel st) k; Some (max t zmin) }) = Some newZoom"
    and a8: "setZoom rnd newZoom st = Some st1"
    and a9: "mulR rnd worldX newZoom = Some tx"
    and a10: "subR rnd (rawX ev) tx = Some npx"
    and a11: "mulR rnd worldY newZoom = Some ty"
    and a12: "subR rnd (rawY ev) ty = Some npy"
    and a13: "st' = setPanOffset npx npy st1"
    unfolding onWheel_def bind_eq_Some_conv by blast
  from a7 obtain t where
    b7: "if deltaY ev < 0 then mulR rnd (zoomLevel st) k = Some t \<and> newZoom = min t zoomMax
         else divR rnd (zoomLevel st) k = Some t \<and> newZoom = max t zmin"
    by (auto simp: bind_eq_Some_conv split: if_splits)
  have s1: "st1 = st\<lparr>zoomLevel := max zmin (min newZoom zoomMax)\<rparr>"
    using a8 a6 by (simp add: setZoom_def)
  have c1: "px (panOffset st') = npx" "py (panOffset st') = npy"
    "zoomLevel st' = max zmin (min newZoom zoomMax)"
    by (simp_all add: a13 s1 setPanOffset_def)
  show thesis
    by (rule that[OF a1 a2 a3 a4 a5 a6 b7 a9 a10[folded c1(1)] a11 a12[folded c1(2)] c1(3)])
qed

lemma stepped_zoom_in_range:
  assumes "1 / 10 \<le> z" and "z \<le> zoomMax"
    and "if zoomIn then mulR fl z (5404319552844595 / 2 ^ 52) = Some t \<and> newZoom = min t zoomMax
         else divR fl z (5404319552844595 / 2 ^ 52) = Some t
              \<and> newZoom = max t (3602879701896397 / 2 ^ 55)"
  shows "max (3602879701896397 / 2 ^ 55) (min newZoom zoomMax) = newZoom"
    and "1 / 10 \<le> newZoom" and "newZoom \<le> zoomMax"
proof -
  have r: "3602879701896397 / 2 ^ 55 \<le> newZoom \<and> newZoom \<le> zoomMax"
  proof (cases zoomIn)
    case True
    then have f: "fl (z * (5404319552844595 / 2 ^ 52)) = Some t" and n: "newZoom = min t zoomMax"
      using assms(3) by (simp_all add: mulR_def)
    define v where "v = z * (5404319552844595 / 2 ^ 52)"
    have "\<bar>t - v\<bar> \<le> \<bar>v\<bar> / 2 ^ 53"
      unfolding v_def by (rule fl_error(1)[OF f])
    moreover have "\<bar>v\<bar> = v" using assms(1) by (simp add: v_def)
    ultimately have "\<bar>t - v\<bar> \<le> v / 9007199254740992" by simp
    then have "v - v / 9007199254740992 \<le> t" by linarith
    then have "v - v / 2 ^ 53 \<le> t" by simp
    then have "3602879701896397 / 2 ^ 55 \<le> t" using assms(1) by (simp add: v_def)
    then show ?thesis using n by (simp add: zoomMax_def)
  next
    case False
    then have f: "fl (z / (5404319552844595 / 2 ^ 52)) = Some t"
      and n: "newZoom = max t (3602879701896397 / 2 ^ 55)"
      using assms(3) by (simp_all add: divR_def split: if_splits)
    define v where "v = z / (5404319552844595 / 2 ^ 52)"
    have "\<bar>t - v\<bar> \<le> \<bar>v\<bar> / 2 ^ 53"
      unfolding v_def by (rule fl_error(1)[OF f])
    moreover have "\<bar>v\<bar> = v" using assms(1) by (simp add: v_def)
    ultimately have "\<bar>t - v\<bar> \<le> v / 9007199254740992" by simp
    then have "t \<le> v + v / 9007199254740992" by linarith
    then have "t \<le> v + v / 2 ^ 53" by simp
    then have "t \<le> zoomMax" using assms(2) by (simp add: v_def zoomMax_def)
    then show ?thesis using n by (simp add: zoomMax_def)
  qed
  then show "max (3602879701896397 / 2 ^ 55) (min newZoom zoomMax) = newZoom" by simp
  show "1 / 10 \<le> newZoom" using r by simp
  show "newZoom \<le> zoomMax" using r by simp
qed

text \<open>The examples, evaluated in double arithmetic.\<close>

lemma wheel_example:
  "onWheel fl wheelIn (initialStore :: unit cad_store) = Some zoomedStore"
  "getMousePos fl wheelIn (initialStore :: unit cad_store) = Some \<lparr>px = 7, py = 7\<rparr>"
  "getMousePos fl wheelIn zoomedStore = Some \<lparr>px = 7 + 1 / 2 ^ 50, py = 7 + 1 / 2 ^ 50\<rparr>"
proof -
  show "getMousePos fl wheelIn (initialStore :: unit cad_store) = Some \<lparr>px = 7, py = 7\<rparr>"
    using fl_wheel_values(1)
    by (simp add: getMousePos_def subR_def divR_def wheelIn_def initialStore_def)
  show "onWheel fl wheelIn (initialStore :: unit cad_store) = Some zoomedStore"
    using fl_wheel_values fl_literals
    by (simp add: onWheel_def setZoom_def setPanOffset_def subR_def divR_def mulR_def
        wheelIn_def initialStore_def zoomedStore_def zoomMax_def zoomMin_def)
  show "getMousePos fl wheelIn zoomedStore
          = Some \<lparr>px = 7 + 1 / 2 ^ 50, py = 7 + 1 / 2 ^ 50\<rparr>"
    using fl_wheel_values
    by (simp add: getMousePos_def subR_def divR_def wheelIn_def initialStore_def
        zoomedStore_def)
qed

lemma triple_example:
  "drawLineWithConstantWidth fl (3602879701896397 / 2 ^ 55) (3602879701896397 / 2 ^ 55) 7 7
      ''#000000'' 1 (panOffset tripleZoomStore) (zoomLevel tripleZoomStore) = Some tripleStroke"
  "getMousePos fl \<lparr>button = 0, rawX = px (move_to tripleStroke), rawY = py (move_to tripleStroke)\<rparr>
      tripleZoomStore = Some \<lparr>px = 7205759403792795 / 2 ^ 56, py = 7205759403792795 / 2 ^ 56\<rparr>"
  "getMousePos fl \<lparr>button = 0, rawX = px (line_to tripleStroke), rawY = py (line_to tripleStroke)\<rparr>
      tripleZoomStore = Some \<lparr>px = 7, py = 7\<rparr>"
proof -
  show "drawLineWithConstantWidth fl (3602879701896397 / 2 ^ 55) (3602879701896397 / 2 ^ 55) 7 7
      ''#000000'' 1 (panOffset tripleZoomStore) (zoomLevel tripleZoomStore) = Some tripleStroke"
    using fl_roundtrip_values
    by (simp add: drawLineWithConstantWidth_def mulR_def addR_def tripleZoomStore_def
        initialStore_def tripleStroke_def)
  show "getMousePos fl
      \<lparr>button = 0, rawX = px (move_to tripleStroke), rawY = py (move_to tripleStroke)\<rparr>
      tripleZoomStore = Some \<lparr>px = 7205759403792795 / 2 ^ 56, py = 7205759403792795 / 2 ^ 56\<rparr>"
    using fl_roundtrip_values
    by (simp add: getMousePos_def subR_def divR_def tripleZoomStore_def initialStore_def
        tripleStroke_def)
  show "getMousePos fl
      \<lparr>button = 0, rawX = px (line_to tripleStroke), rawY = py (line_to tripleStroke)\<rparr>
      tripleZoomStore = Some \<lparr>px = 7, py = 7\<rparr>"
    using fl_roundtrip_values fl_wheel_values(1)
    by (simp add: getMousePos_def subR_def divR_def tripleZoomStore_def initialStore_def
        tripleStroke_def)
qed

lemma huge_example:
  "drawLineWithConstantWidth fl 1 1 2 2 ''#000000'' 1 (panOffset hugePanStore)
      (zoomLevel hugePanStore) = Some hugeStroke"
  "getMousePos fl \<lparr>button = 0, rawX = px (move_to hugeStroke), rawY = py (move_to hugeStroke)\<rparr>
      hugePanStore = Some \<lparr>px = 0, py = 0\<rparr>"
  "getMousePos fl \<lparr>button = 0, rawX = px (line_to hugeStroke), rawY = py (line_to hugeStroke)\<rparr>
      hugePanStore = Some \<lparr>px = 0, py = 0\<rparr>"
proof -
  show "drawLineWithConstantWidth fl 1 1 2 2 ''#000000'' 1 (panOffset hugePanStore)
      (zoomLevel hugePanStore) = Some hugeStroke"
    using fl_small_values fl_huge_values
    by (simp add: drawLineWithConstantWidth_def mulR_def addR_def hugePanStore_def
        initialStore_def hugeStroke_def)
  show "getMousePos fl
      \<lparr>button = 0, rawX = px (move_to hugeStroke), rawY = py (move_to hugeStroke)\<rparr>
      hugePanStore = Some \<lparr>px = 0, py = 0\<rparr>"
    using fl_zero
    by (simp add: getMousePos_def subR_def divR_def hugePanStore_def initialStore_def
        hugeStroke_def)
  show "getMousePos fl
      \<lparr>button = 0, rawX = px (line_to hugeStroke), rawY = py (line_to hugeStroke)\<rparr>
      hugePanStore = Some \<lparr>px = 0, py = 0\<rparr>"
    using fl_zero
    by (simp add: getMousePos_def subR_def divR_def hugePanStore_def initialStore_def
        hugeStroke_def)
qed

text \<open>
  Claim C6 as stated fails in double arithmetic. With zoom 1 and pan
  \<open>(10 ^ 17, 10 ^ 17)\<close> both ends of the segment from (1, 1) to (2, 2) are drawn at screen
  \<open>(10 ^ 17, 10 ^ 17)\<close>, and \<^verbatim>\<open>getMousePos\<close> maps both back to the world point (0, 0): the
  error is as large as the point itself, not a rounding error of its last places.
\<close>

theorem world_screen_roundtrip_not_exact:
  "zoomMin \<le> zoomLevel hugePanStore \<and> zoomLevel hugePanStore \<le> zoomMax
   \<and> drawLineWithConstantWidth fl 1 1 2 2 ''#000000'' 1 (panOffset hugePanStore)
        (zoomLevel hugePanStore) = Some hugeStroke
   \<and> getMousePos fl
        \<lparr>button = 0, rawX = px (move_to hugeStroke), rawY = py (move_to hugeStroke)\<rparr> hugePanStore
       = Some \<lparr>px = 0, py = 0\<rparr>
   \<and> getMousePos fl
        \<lparr>button = 0, rawX = px (line_to hugeStroke), rawY = py (line_to hugeStroke)\<rparr> hugePanStore
       = Some \<lparr>px = 0, py = 0\<rparr>
   \<and> \<lparr>px = 0, py = 0\<rparr> \<noteq> \<lparr>px = 1, py = 1\<rparr> \<and> \<lparr>px = 0, py = 0\<rparr> \<noteq> \<lparr>px = 2, py = 2\<rparr>
   \<and> \<bar>1 :: real\<bar> / 2 ^ 51 < \<bar>0 - 1\<bar>"
  using huge_example by (simp add: hugePanStore_def initialStore_def zoomMin_def zoomMax_def)

text \<open>
  Claim C6, amended. For a zoom level in \<open>[zoomMin, zoomMax]\<close>, whenever
  \<^verbatim>\<open>drawLineWithConstantWidth\<close> and \<^verbatim>\<open>getMousePos\<close> stay within the normal range of
  doubles, every coordinate that \<^verbatim>\<open>getMousePos\<close> returns for a drawn end point differs
  from the world coordinate \<open>p\<close> it was drawn from by at most
  \<open>\<bar>p\<bar> / 2 ^ 51 + \<bar>screen\<bar> / zoom / 2 ^ 52\<close>, where \<open>screen\<close> is the drawn screen coordinate.
  In exact arithmetic the round trip returns the world point itself.
\<close>

theorem world_screen_roundtrip_rounded:
  assumes z1: "zoomMin \<le> zoomLevel st" and z2: "zoomLevel st \<le> zoomMax"
  shows "(\<exists>ske. drawLineWithConstantWidth exact x1 y1 x2 y2 color width (panOffset st)
                 (zoomLevel st) = Some ske
            \<and> getMousePos exact
                 \<lparr>button = b, rawX = px (move_to ske), rawY = py (move_to ske)\<rparr> st
               = Some \<lparr>px = x1, py = y1\<rparr>
            \<and> getMousePos exact
                 \<lparr>button = b, rawX = px (line_to ske), rawY = py (line_to ske)\<rparr> st
               = Some \<lparr>px = x2, py = y2\<rparr>)
       \<and> (drawLineWithConstantWidth fl x1 y1 x2 y2 color width (panOffset st) (zoomLevel st)
             = Some sk
           \<longrightarrow> getMousePos fl \<lparr>button = b, rawX = px (move_to sk), rawY = py (move_to sk)\<rparr> st
                 = Some p1
           \<longrightarrow> getMousePos fl \<lparr>button = b, rawX = px (line_to sk), rawY = py (line_to sk)\<rparr> st
                 = Some p2
           \<longrightarrow> \<bar>px p1 - x1\<bar> \<le> \<bar>x1\<bar> / 2 ^ 51 + \<bar>px (move_to sk)\<bar> / zoomLevel st / 2 ^ 52
               \<and> \<bar>py p1 - y1\<bar> \<le> \<bar>y1\<bar> / 2 ^ 51 + \<bar>py (move_to sk)\<bar> / zoomLevel st / 2 ^ 52
               \<and> \<bar>px p2 - x2\<bar> \<le> \<bar>x2\<bar> / 2 ^ 51 + \<bar>px (line_to sk)\<bar> / zoomLevel st / 2 ^ 52
               \<and> \<bar>py p2 - y2\<bar> \<le> \<bar>y2\<bar> / 2 ^ 51 + \<bar>py (line_to sk)\<bar> / zoomLevel st / 2 ^ 52)"
proof -
  have pos: "0 < zoomLevel st" using z1 by (simp add: zoomMin_def)
  have ex: "\<exists>ske. drawLineWithConstantWidth exact x1 y1 x2 y2 color width (panOffset st)
                    (zoomLevel st) = Some ske
              \<and> getMousePos exact
                    \<lparr>button = b, rawX = px (move_to ske), rawY = py (move_to ske)\<rparr> st
                  = Some \<lparr>px = x1, py = y1\<rparr>
              \<and> getMousePos exact
                    \<lparr>button = b, rawX = px (line_to ske), rawY = py (line_to ske)\<rparr> st
                  = Some \<lparr>px = x2, py = y2\<rparr>"
    using pos
    by (simp add: drawLineWithConstantWidth_def getMousePos_def exact_def mulR_def addR_def
        subR_def divR_def)
  have bounds: "\<bar>px p1 - x1\<bar> \<le> \<bar>x1\<bar> / 2 ^ 51 + \<bar>px (move_to sk)\<bar> / zoomLevel st / 2 ^ 52
       \<and> \<bar>py p1 - y1\<bar> \<le> \<bar>y1\<bar> / 2 ^ 51 + \<bar>py (move_to sk)\<bar> / zoomLevel st / 2 ^ 52
       \<and> \<bar>px p2 - x2\<bar> \<le> \<bar>x2\<bar> / 2 ^ 51 + \<bar>px (line_to sk)\<bar> / zoomLevel st / 2 ^ 52
       \<and> \<bar>py p2 - y2\<bar> \<le> \<bar>y2\<bar> / 2 ^ 51 + \<bar>py (line_to sk)\<bar> / zoomLevel st / 2 ^ 52"
    if dr: "drawLineWithConstantWidth fl x1 y1 x2 y2 color width (panOffset st) (zoomLevel st)
              = Some sk"
      and m1: "getMousePos fl \<lparr>button = b, rawX = px (move_to sk), rawY = py (move_to sk)\<rparr> st
              = Some p1"
      and m2: "getMousePos fl \<lparr>button = b, rawX = px (line_to sk), rawY = py (line_to sk)\<rparr> st
              = Some p2"
  proof -
    from dr obtain ax1 ay1 ax2 ay2 where
      d1: "mulR fl x1 (zoomLevel st) = Some ax1"
      and d2: "addR fl ax1 (px (panOffset st)) = Some (px (move_to sk))"
      and d3: "mulR fl y1 (zoomLevel st) = Some ay1"
      and d4: "addR fl ay1 (py (panOffset st)) = Some (py (move_to sk))"
      and d5: "mulR fl x2 (zoomLevel st) = Some ax2"
      and d6: "addR fl ax2 (px (panOffset st)) = Some (px (line_to sk))"
      and d7: "mulR fl y2 (zoomLevel st) = Some ay2"
      and d8: "addR fl ay2 (py (panOffset st)) = Some (py (line_to sk))"
      by (rule drawLineWithConstantWidth_Some)
    from m1 obtain e1 e2 where
      g1: "subR fl (px (move_to sk)) (px (panOffset st)) = Some e1"
      and g2: "divR fl e1 (zoomLevel st) = Some (px p1)"
      and g3: "subR fl (py (move_to sk)) (py (panOffset st)) = Some e2"
      and g4: "divR fl e2 (zoomLevel st) = Some (py p1)"
      by (rule getMousePos_Some) simp
    from m2 obtain e3 e4 where
      g5: "subR fl (px (line_to sk)) (px (panOffset st)) = Some e3"
      and g6: "divR fl e3 (zoomLevel st) = Some (px p2)"
      and g7: "subR fl (py (line_to sk)) (py (panOffset st)) = Some e4"
      and g8: "divR fl e4 (zoomLevel st) = Some (py p2)"
      by (rule getMousePos_Some) simp
    have b1: "\<bar>px p1 - x1\<bar> \<le> \<bar>x1\<bar> / 2 ^ 51 + \<bar>px (move_to sk)\<bar> / zoomLevel st / 2 ^ 52"
      by (rule coordinate_roundtrip[OF pos d1 d2 g1 g2])
    have b2: "\<bar>py p1 - y1\<bar> \<le> \<bar>y1\<bar> / 2 ^ 51 + \<bar>py (move_to sk)\<bar> / zoomLevel st / 2 ^ 52"
      by (rule coordinate_roundtrip[OF pos d3 d4 g3 g4])
    have b3: "\<bar>px p2 - x2\<bar> \<le> \<bar>x2\<bar> / 2 ^ 51 + \<bar>px (line_to sk)\<bar> / zoomLevel st / 2 ^ 52"
      by (rule coordinate_roundtrip[OF pos d5 d6 g5 g6])
    have b4: "\<bar>py p2 - y2\<bar> \<le> \<bar>y2\<bar> / 2 ^ 51 + \<bar>py (line_to sk)\<bar> / zoomLevel st / 2 ^ 52"
      by (rule coordinate_roundtrip[OF pos d7 d8 g7 g8])
    from b1 b2 b3 b4 show ?thesis by blast
  qed
  from ex bounds show ?thesis by blast
qed

text \<open>
  At zoom 3 and pan (0, 0), for the segment from the double nearest to 0.1 to (7, 7):
  the first end reads back one unit in the last place higher, within the bound, the
  second end reads back as it is.
\<close>

theorem world_screen_roundtrip_rounded_witness:
  "zoomMin \<le> zoomLevel tripleZoomStore \<and> zoomLevel tripleZoomStore \<le> zoomMax
   \<and> drawLineWithConstantWidth fl (3602879701896397 / 2 ^ 55) (3602879701896397 / 2 ^ 55) 7 7
        ''#000000'' 1 (panOffset tripleZoomStore) (zoomLevel tripleZoomStore) = Some tripleStroke
   \<and> getMousePos fl
        \<lparr>button = 0, rawX = px (move_to tripleStroke), rawY = py (move_to tripleStroke)\<rparr>
        tripleZoomStore
       = Some \<lparr>px = 7205759403792795 / 2 ^ 56, py = 7205759403792795 / 2 ^ 56\<rparr>
   \<and> getMousePos fl
        \<lparr>button = 0, rawX = px (line_to tripleStroke), rawY = py (line_to tripleStroke)\<rparr>
        tripleZoomStore
       = Some \<lparr>px = 7, py = 7\<rparr>
   \<and> \<bar>7205759403792795 / 2 ^ 56 - 3602879701896397 / 2 ^ 55\<bar>
       \<le> \<bar>3602879701896397 / 2 ^ 55 :: real\<bar> / 2 ^ 51
          + \<bar>px (move_to tripleStroke)\<bar> / zoomLevel tripleZoomStore / 2 ^ 52
   \<and> \<bar>7 - 7\<bar> \<le> \<bar>7 :: real\<bar> / 2 ^ 51
          + \<bar>px (line_to tripleStroke)\<bar> / zoomLevel tripleZoomStore / 2 ^ 52
   \<and> (\<exists>ske. drawLineWithConstantWidth exact (3602879701896397 / 2 ^ 55)
                (3602879701896397 / 2 ^ 55) 7 7 ''#000000'' 1 (panOffset tripleZoomStore)
                (zoomLevel tripleZoomStore) = Some ske
          \<and> getMousePos exact
                \<lparr>button = 0, rawX = px (move_to ske), rawY = py (move_to ske)\<rparr> tripleZoomStore
              = Some \<lparr>px = 3602879701896397 / 2 ^ 55, py = 3602879701896397 / 2 ^ 55\<rparr>
          \<and> getMousePos exact
                \<lparr>button = 0, rawX = px (line_to ske), rawY = py (line_to ske)\<rparr> tripleZoomStore
              = Some \<lparr>px = 7, py = 7\<rparr>)"
proof -
  have z: "zoomMin \<le> zoomLevel tripleZoomStore" "zoomLevel tripleZoomStore \<le> zoomMax"
    by (simp_all add: tripleZoomStore_def initialStore_def zoomMax_def zoomMin_def)
  note t = world_screen_roundtrip_rounded[OF z, where ?x1.0 = "3602879701896397 / 2 ^ 55"
      and ?y1.0 = "3602879701896397 / 2 ^ 55" and ?x2.0 = 7 and ?y2.0 = 7
      and color = "''#000000''" and width = 1 and b = 0 and sk = tripleStroke
      and ?p1.0 = "\<lparr>px = 7205759403792795 / 2 ^ 56, py = 7205759403792795 / 2 ^ 56\<rparr>"
      and ?p2.0 = "\<lparr>px = 7, py = 7\<rparr>"]
  show ?thesis
    using z triple_example t by simp
qed

text \<open>In exact arithmetic \<^verbatim>\<open>onWheel\<close> always returns, and the cursor reads the same
  world point before and after.\<close>

lemma onWheel_exact_fixes_cursor:
  assumes z1: "zoomMin \<le> zoomLevel st" and z2: "zoomLevel st \<le> zoomMax"
  shows "\<exists>st'. onWheel exact ev st = Some st'
            \<and> getMousePos exact ev st' = getMousePos exact ev st"
proof -
  define nz where "nz = (if deltaY ev < 0 then min (zoomLevel st * (12 / 10)) zoomMax
                         else max (zoomLevel st / (12 / 10)) zoomMin)"
  define st' where "st' = setPanOffset
      (rawX ev - (rawX ev - px (panOffset st)) / zoomLevel st * nz)
      (rawY ev - (rawY ev - py (panOffset st)) / zoomLevel st * nz) (st\<lparr>zoomLevel := nz\<rparr>)"
  have r: "zoomMin \<le> nz" "nz \<le> zoomMax"
    using z1 z2 by (auto simp: nz_def zoomMin_def zoomMax_def)
  have cl: "max zoomMin (min nz zoomMax) = nz" using r by simp
  have pos: "zoomLevel st \<noteq> 0" "nz \<noteq> 0" using z1 r by (simp_all add: zoomMin_def)
  have a: "onWheel exact ev st = Some st'"
  proof (cases "deltaY ev < 0")
    case True
    then have n: "nz = min (zoomLevel st * (12 / 10)) zoomMax" by (simp add: nz_def)
    show ?thesis
      using True pos(1) cl[unfolded n]
      by (simp add: onWheel_def setZoom_def exact_def subR_def divR_def mulR_def st'_def n)
  next
    case False
    then have n: "nz = max (zoomLevel st / (12 / 10)) zoomMin" by (simp add: nz_def)
    show ?thesis
      using False pos(1) cl[unfolded n]
      by (simp add: onWheel_def setZoom_def exact_def subR_def divR_def mulR_def st'_def n)
  qed
  have b: "getMousePos exact ev st' = getMousePos exact ev st"
    using pos
    by (simp add: getMousePos_def exact_def subR_def divR_def st'_def setPanOffset_def)
  from a b show ?thesis by blast
qed

text \<open>
  Claim C5 as stated fails in double arithmetic. On the default store (zoom 1, pan
  (0, 0)) a wheel-up at cursor (7, 7) sets the zoom to the double of 1.2 and the pan to
  the rounded \<open>7 - 7 * 1.2\<close>; the world point under the cursor is (7, 7) before and
  \<open>(7 + 1 / 2 ^ 50, 7 + 1 / 2 ^ 50)\<close> after.
\<close>

theorem zoom_to_cursor_not_exact:
  "onWheel fl wheelIn (initialStore :: unit cad_store) = Some zoomedStore
   \<and> getMousePos fl wheelIn (initialStore :: unit cad_store) = Some \<lparr>px = 7, py = 7\<rparr>
   \<and> getMousePos fl wheelIn zoomedStore = Some \<lparr>px = 7 + 1 / 2 ^ 50, py = 7 + 1 / 2 ^ 50\<rparr>
   \<and> \<lparr>px = 7 + 1 / 2 ^ 50, py = 7 + 1 / 2 ^ 50\<rparr> \<noteq> \<lparr>px = 7, py = 7\<rparr>"
  using wheel_example by simp

text \<open>
  Claim C5, amended. For every wheel event on a store whose zoom level lies in
  \<open>[zoomMin, zoomMax]\<close>, whenever \<^verbatim>\<open>onWheel\<close> and the two readings of the cursor by
  \<^verbatim>\<open>getMousePos\<close> stay within the normal range of doubles, the world coordinate \<open>w'\<close>
  under the cursor after the event differs from the coordinate \<open>w\<close> before it by at most
  \<open>\<bar>w\<bar> / 2 ^ 51 + \<bar>newPan\<bar> / newZoom / 2 ^ 52\<close> on each axis, whether the stepped zoom is
  clamped or not; the new zoom level lies in \<open>[zoomMin, zoomMax]\<close> again.
\<close>

theorem zoom_to_cursor_rounded:
  assumes z1: "zoomMin \<le> zoomLevel st" and z2: "zoomLevel st \<le> zoomMax"
  shows "(\<exists>ste. onWheel exact ev st = Some ste
            \<and> getMousePos exact ev ste = getMousePos exact ev st)
       \<and> (onWheel fl ev st = Some st' \<longrightarrow> getMousePos fl ev st = Some w
           \<longrightarrow> getMousePos fl ev st' = Some w'
           \<longrightarrow> \<bar>px w' - px w\<bar>
                 \<le> \<bar>px w\<bar> / 2 ^ 51 + \<bar>px (panOffset st')\<bar> / zoomLevel st' / 2 ^ 52
               \<and> \<bar>py w' - py w\<bar>
                 \<le> \<bar>py w\<bar> / 2 ^ 51 + \<bar>py (panOffset st')\<bar> / zoomLevel st' / 2 ^ 52
               \<and> zoomMin \<le> zoomLevel st' \<and> zoomLevel st' \<le> zoomMax)"
proof -
  have ex: "\<exists>ste. onWheel exact ev st = Some ste
            \<and> getMousePos exact ev ste = getMousePos exact ev st"
    by (rule onWheel_exact_fixes_cursor[OF z1 z2])
  have bounds: "\<bar>px w' - px w\<bar>
                 \<le> \<bar>px w\<bar> / 2 ^ 51 + \<bar>px (panOffset st')\<bar> / zoomLevel st' / 2 ^ 52
               \<and> \<bar>py w' - py w\<bar>
                 \<le> \<bar>py w\<bar> / 2 ^ 51 + \<bar>py (panOffset st')\<bar> / zoomLevel st' / 2 ^ 52
               \<and> zoomMin \<le> zoomLevel st' \<and> zoomLevel st' \<le> zoomMax"
    if ow: "onWheel fl ev st = Some st'" and w: "getMousePos fl ev st = Some w"
      and w': "getMousePos fl ev st' = Some w'"
  proof -
    from ow obtain dx worldX dy worldY k zmin newZoom tx ty t where
      f1: "subR fl (rawX ev) (px (panOffset st)) = Some dx"
      and f2: "divR fl dx (zoomLevel st) = Some worldX"
      and f3: "subR fl (rawY ev) (py (panOffset st)) = Some dy"
      and f4: "divR fl dy (zoomLevel st) = Some worldY"
      and f5: "fl (12 / 10) = Some k" and f6: "fl zoomMin = Some zmin"
      and f7: "if deltaY ev < 0 then mulR fl (zoomLevel st) k = Some t \<and> newZoom = min t zoomMax
           else divR fl (zoomLevel st) k = Some t \<and> newZoom = max t zmin"
      and f8: "mulR fl worldX newZoom = Some tx"
      and f9: "subR fl (rawX ev) tx = Some (px (panOffset st'))"
      and f10: "mulR fl worldY newZoom = Some ty"
      and f11: "subR fl (rawY ev) ty = Some (py (panOffset st'))"
      and f12: "zoomLevel st' = max zmin (min newZoom zoomMax)"
      by (rule onWheel_Some)
    have k: "k = 5404319552844595 / 2 ^ 52" using f5 fl_literals(1) by simp
    have zm: "zmin = 3602879701896397 / 2 ^ 55" using f6 fl_literals(2) by (simp add: zoomMin_def)
    have z1': "1 / 10 \<le> zoomLevel st" using z1 by (simp add: zoomMin_def)
    have step: "if deltaY ev < 0
        then mulR fl (zoomLevel st) (5404319552844595 / 2 ^ 52) = Some t \<and> newZoom = min t zoomMax
        else divR fl (zoomLevel st) (5404319552844595 / 2 ^ 52) = Some t
             \<and> newZoom = max t (3602879701896397 / 2 ^ 55)"
      using f7 unfolding k zm .
    have zl: "zoomLevel st' = newZoom"
      using stepped_zoom_in_range(1)[OF z1' z2 step] f12 unfolding zm by simp
    have lo: "1 / 10 \<le> newZoom" by (rule stepped_zoom_in_range(2)[OF z1' z2 step])
    have hi: "newZoom \<le> zoomMax" by (rule stepped_zoom_in_range(3)[OF z1' z2 step])
    have pos: "0 < newZoom" using lo by simp
    from w obtain dx0 dy0 where
      g1: "subR fl (rawX ev) (px (panOffset st)) = Some dx0"
      and g2: "divR fl dx0 (zoomLevel st) = Some (px w)"
      and g3: "subR fl (rawY ev) (py (panOffset st)) = Some dy0"
      and g4: "divR fl dy0 (zoomLevel st) = Some (py w)"
      by (rule getMousePos_Some)
    have wx: "worldX = px w" using f1 f2 g1 g2 by simp
    have wy: "worldY = py w" using f3 f4 g3 g4 by simp
    from w' obtain d1 d2 where
      h1: "subR fl (rawX ev) (px (panOffset st')) = Some d1"
      and h2: "divR fl d1 (zoomLevel st') = Some (px w')"
      and h3: "subR fl (rawY ev) (py (panOffset st')) = Some d2"
      and h4: "divR fl d2 (zoomLevel st') = Some (py w')"
      by (rule getMousePos_Some)
    have cx: "\<bar>px w' - px w\<bar> \<le> \<bar>px w\<bar> / 2 ^ 51 + \<bar>px (panOffset st')\<bar> / newZoom / 2 ^ 52"
      by (rule zoom_coordinate[OF pos f8[unfolded wx] f9 h1 h2[unfolded zl]])
    have cy: "\<bar>py w' - py w\<bar> \<le> \<bar>py w\<bar> / 2 ^ 51 + \<bar>py (panOffset st')\<bar> / newZoom / 2 ^ 52"
      by (rule zoom_coordinate[OF pos f10[unfolded wy] f11 h3 h4[unfolded zl]])
    show ?thesis using cx cy lo hi unfolding zl by (simp add: zoomMin_def)
  qed
  from ex bounds show ?thesis by blast
qed

text \<open>The wheel-up at cursor (7, 7) on the default store: the deviation \<open>1 / 2 ^ 50\<close> is
  within the bound.\<close>

theorem zoom_to_cursor_rounded_witness:
  "zoomMin \<le> zoomLevel (initialStore :: unit cad_store)
   \<and> zoomLevel (initialStore :: unit cad_store) \<le> zoomMax
   \<and> onWheel fl wheelIn (initialStore :: unit cad_store) = Some zoomedStore
   \<and> getMousePos fl wheelIn (initialStore :: unit cad_store) = Some \<lparr>px = 7, py = 7\<rparr>
   \<and> getMousePos fl wheelIn zoomedStore = Some \<lparr>px = 7 + 1 / 2 ^ 50, py = 7 + 1 / 2 ^ 50\<rparr>
   \<and> \<bar>(7 + 1 / 2 ^ 50) - 7\<bar>
       \<le> \<bar>7 :: real\<bar> / 2 ^ 51 + \<bar>px (panOffset zoomedStore)\<bar> / zoomLevel zoomedStore / 2 ^ 52
   \<and> zoomMin \<le> zoomLevel zoomedStore \<and> zoomLevel zoomedStore \<le> zoomMax"
  using zoom_to_cursor_rounded[where st = "initialStore :: unit cad_store" and ev = wheelIn
      and st' = zoomedStore and w = "\<lparr>px = 7, py = 7\<rparr>"
      and w' = "\<lparr>px = 7 + 1 / 2 ^ 50, py = 7 + 1 / 2 ^ 50\<rparr>"]
    wheel_example
  by (simp add: initialStore_def zoomMax_def zoomMin_def)

text \<open>A step that is clamped: at zoom 9 a wheel-up gives \<open>min (9 * 1.2) zoomMax = 10\<close>,
  and the world point (10, 5) under the cursor (100, 50) stays where it is.\<close>

lemma onWheel_clamped_example:
  "onWheel fl \<lparr>button = 0, rawX = 100, rawY = 50, deltaY = - 1\<rparr> nearMaxStore = Some clampedStore"
  "getMousePos fl \<lparr>button = 0, rawX = 100, rawY = 50, deltaY = - 1\<rparr> nearMaxStore
     = Some \<lparr>px = 10, py = 5\<rparr>"
  "getMousePos fl \<lparr>button = 0, rawX = 100, rawY = 50, deltaY = - 1\<rparr> clampedStore
     = Some \<lparr>px = 10, py = 5\<rparr>"
proof -
  show "onWheel fl \<lparr>button = 0, rawX = 100, rawY = 50, deltaY = - 1\<rparr> nearMaxStore
          = Some clampedStore"
    using fl_clamp_values fl_literals fl_zero
    by (simp add: onWheel_def setZoom_def setPanOffset_def subR_def divR_def mulR_def
        nearMaxStore_def clampedStore_def initialStore_def zoomMax_def zoomMin_def)
  show "getMousePos fl \<lparr>button = 0, rawX = 100, rawY = 50, deltaY = - 1\<rparr> nearMaxStore
          = Some \<lparr>px = 10, py = 5\<rparr>"
    using fl_clamp_values
    by (simp add: getMousePos_def subR_def divR_def nearMaxStore_def initialStore_def)
  show "getMousePos fl \<lparr>button = 0, rawX = 100, rawY = 50, deltaY = - 1\<rparr> clampedStore
          = Some \<lparr>px = 10, py = 5\<rparr>"
    using fl_clamp_values
    by (simp add: getMousePos_def subR_def divR_def clampedStore_def initialStore_def)
qed

section \<open>Snapping: theorems\<close>

lemma calculateDistance_le:
  assumes "0 \<le> t"
  shows "(calculateDistance a b \<le> t) = ((px b - px a)\<^sup>2 + (py b - py a)\<^sup>2 \<le> t\<^sup>2)"
proof -
  have "(calculateDistance a b \<le> t) = (sqrt ((px b - px a)\<^sup>2 + (py b - py a)\<^sup>2) \<le> sqrt (t\<^sup>2))"
    using assms by (simp add: calculateDistance_def)
  then show ?thesis by (simp only: real_sqrt_le_iff)
qed



text \<open>
  Claim C8. For every point and every segment whose start is its end,
  \<^verbatim>\<open>snapToLine\<close> returns \<^verbatim>\<open>null\<close>: the zero test on the squared length comes before
  the division. So does \<^verbatim>\<open>snapToLines\<close> on any list of such segments. The function has
  no failing branch.
\<close>

theorem snapToLine_zero_length:
  "snapToLine p a a tolerance = None
   \<and> snapToLines p (map (\<lambda>a. \<lparr>seg_start = a, seg_end = a\<rparr>) as) tolerance = None"
proof -
  have one: "\<And>a. snapToLine p a a tolerance = None"
    by (simp add: snapToLine_def)
  have "snapToLines p (map (\<lambda>a. \<lparr>seg_start = a, seg_end = a\<rparr>) as) tolerance = None"
    by (induction as) (simp_all add: one)
  then show ?thesis using one by simp
qed

text \<open>
  Claim C1, evaluated. Grid and point snapping are both on; the cursor (3, 4) is within
  the tolerance 10 of the grid intersection (0, 0) and of the endpoint (5, 4).
  \<^verbatim>\<open>getSnappedPosition\<close> returns the endpoint: the endpoint check is not guarded by
  \<^verbatim>\<open>!snapType\<close> and overwrites the grid match.
\<close>

theorem endpoint_overrides_grid:
  "snapToGrid_flag endpointScene \<and> snapToPoints_flag endpointScene
   \<and> snapToTransformedGrid \<lparr>px = 3, py = 4\<rparr> (gridSize endpointScene) (panOffset endpointScene) (zoomLevel endpointScene)
        = \<lparr>px = 0, py = 0\<rparr>
   \<and> calculateDistance \<lparr>px = 3, py = 4\<rparr> \<lparr>px = 0, py = 0\<rparr> \<le> snapTolerance endpointScene
   \<and> calculateDistance \<lparr>px = 3, py = 4\<rparr> \<lparr>px = 5, py = 4\<rparr> \<le> snapTolerance endpointScene
   \<and> getSnappedPosition endpointScene \<lparr>px = 3, py = 4\<rparr>
        = \<lparr>position = \<lparr>px = 5, py = 4\<rparr>, snap_type = Some EndpointSnap\<rparr>"
  by (simp add: endpointScene_def initialStore_def getSnappedPosition_def gridStep_def
      endpointStep_def guardedPointStep_def lineStep_def endpointCandidates_def
      getAllSnapPoints_def snapToTransformedGrid_def js_round_def calculateDistance_le Let_def)










section \<open>Cancelling and the numeric prompt: theorems\<close>

text \<open>
  Claim C2 as stated fails for the polyline. With the polyline tool drawing and two
  active points, a right-click commits them as a polyline object, so \<open>vectorObjects\<close>
  changes; and \<^verbatim>\<open>handleEscape\<close> leaves the active polyline points in place.
\<close>

theorem cancel_not_for_polyline:
  "polylinePoints (store polylineCanvas) \<noteq> []
   \<and> vectorObjects (store (onClick ''img'' \<lparr>button = 2, rawX = 50, rawY = 50\<rparr> polylineCanvas))
        = [Polyline [\<lparr>px = 0, py = 0\<rparr>, \<lparr>px = 20, py = 0\<rparr>] ''#000000'' 2]
   \<and> vectorObjects (store (onClick ''img'' \<lparr>button = 2, rawX = 50, rawY = 50\<rparr> polylineCanvas))
        \<noteq> vectorObjects (store polylineCanvas)
   \<and> polylinePoints (store (handleEscape polylineCanvas))
        = [\<lparr>px = 0, py = 0\<rparr>, \<lparr>px = 20, py = 0\<rparr>]"
  by (simp add: polylineCanvas_def idleCanvas_def initialStore_def onClick_def onRightClick_def
      handleEscape_def setIsDrawing_def addVectorObject_def clearPolylinePoints_def
      saveState_canvas_def saveState_def clearCommand_def Let_def)

lemma handleEscape_effect:
  "startPoint (handleEscape c) = None
   \<and> dimensionStart (store (handleEscape c)) = None
   \<and> dimensionSecondPoint (store (handleEscape c)) = None
   \<and> dimensionLinePosition (store (handleEscape c)) = None
   \<and> vectorObjects (store (handleEscape c)) = vectorObjects (store c)
   \<and> history (store (handleEscape c)) = history (store c)
   \<and> historyIndex (store (handleEscape c)) = historyIndex (store c)"
  by (simp add: handleEscape_def clearAllDimensionData_def cancelInput_def Let_def)

lemma onRightClick_clears:
  "startPoint (onRightClick capture c) = None
   \<and> dimensionStart (store (onRightClick capture c)) = None
   \<and> dimensionSecondPoint (store (onRightClick capture c)) = None
   \<and> dimensionLinePosition (store (onRightClick capture c)) = None
   \<and> currentCommand (onRightClick capture c) = None
   \<and> commandCallback (onRightClick capture c) = None"
  by (simp add: onRightClick_def clearAllDimensionData_def clearCommand_def Let_def)

lemma onRightClick_no_commit:
  assumes "\<not> (currentTool (store c) = PolylineTool \<and> isDrawing (store c)
               \<and> length (polylinePoints (store c)) > 1)"
  shows "vectorObjects (store (onRightClick capture c)) = vectorObjects (store c)
       \<and> history (store (onRightClick capture c)) = history (store c)
       \<and> historyIndex (store (onRightClick capture c)) = historyIndex (store c)"
  using assms
  by (auto simp: onRightClick_def clearAllDimensionData_def clearCommand_def setIsDrawing_def
      Let_def)

lemma onRightClick_commit:
  assumes "currentTool (store c) = PolylineTool" and "isDrawing (store c)"
    and "length (polylinePoints (store c)) > 1"
  shows "vectorObjects (store (onRightClick capture c)) = vectorObjects (store c) @
           [Polyline (polylinePoints (store c)) (lineColor (store c)) (lineWidth (store c))]
       \<and> polylinePoints (store (onRightClick capture c)) = []"
  using assms
  by (simp add: onRightClick_def clearAllDimensionData_def clearCommand_def setIsDrawing_def
      addVectorObject_def clearPolylinePoints_def saveState_canvas_def saveState_def Let_def)

text \<open>
  Claim C2, amended. \<^verbatim>\<open>handleEscape\<close> and a right-click both clear the recorded drag
  start and the three dimension fields; the right-click also clears the command line.
  \<^verbatim>\<open>handleEscape\<close> never changes \<open>vectorObjects\<close> or the history. A right-click leaves
  them unchanged unless the polyline tool is drawing with at least two points; in that
  case it commits those points as one polyline object and empties them.
\<close>

theorem cancel_clears_drag_and_dimension:
  assumes "button ev = 2"
  shows "startPoint (handleEscape c) = None
       \<and> dimensionStart (store (handleEscape c)) = None
       \<and> dimensionSecondPoint (store (handleEscape c)) = None
       \<and> dimensionLinePosition (store (handleEscape c)) = None
       \<and> vectorObjects (store (handleEscape c)) = vectorObjects (store c)
       \<and> history (store (handleEscape c)) = history (store c)
       \<and> startPoint (onClick capture ev c) = None
       \<and> dimensionStart (store (onClick capture ev c)) = None
       \<and> dimensionSecondPoint (store (onClick capture ev c)) = None
       \<and> dimensionLinePosition (store (onClick capture ev c)) = None
       \<and> currentCommand (onClick capture ev c) = None
       \<and> commandCallback (onClick capture ev c) = None
       \<and> (\<not> (currentTool (store c) = PolylineTool \<and> isDrawing (store c)
               \<and> length (polylinePoints (store c)) > 1) \<longrightarrow>
            vectorObjects (store (onClick capture ev c)) = vectorObjects (store c)
            \<and> history (store (onClick capture ev c)) = history (store c))
       \<and> (currentTool (store c) = PolylineTool \<and> isDrawing (store c)
               \<and> length (polylinePoints (store c)) > 1 \<longrightarrow>
            vectorObjects (store (onClick capture ev c)) = vectorObjects (store c) @
              [Polyline (polylinePoints (store c)) (lineColor (store c)) (lineWidth (store c))]
            \<and> polylinePoints (store (onClick capture ev c)) = [])"
proof -
  have r: "onClick capture ev c = onRightClick capture c"
    using assms by (simp add: onClick_def Let_def)
  show ?thesis
    unfolding r
    using handleEscape_effect[of c] onRightClick_clears[of capture c]
      onRightClick_no_commit[of c capture] onRightClick_commit[of c capture]
    by blast
qed

text \<open>
  A right-click and an Escape on a recorded drag start with a half-placed dimension.
\<close>

theorem cancel_clears_drag_and_dimension_witness:
  "button \<lparr>button = 2, rawX = 50, rawY = 50\<rparr> = 2
   \<and> startPoint dragCanvas = Some \<lparr>px = 20, py = 20\<rparr>
   \<and> dimensionStart (store dragCanvas) = Some \<lparr>px = 0, py = 0\<rparr>
   \<and> startPoint (onClick ''img'' \<lparr>button = 2, rawX = 50, rawY = 50\<rparr> dragCanvas) = None
   \<and> dimensionStart (store (onClick ''img'' \<lparr>button = 2, rawX = 50, rawY = 50\<rparr> dragCanvas)) = None
   \<and> vectorObjects (store (onClick ''img'' \<lparr>button = 2, rawX = 50, rawY = 50\<rparr> dragCanvas)) = []
   \<and> startPoint (handleEscape dragCanvas) = None
   \<and> dimensionSecondPoint (store (handleEscape dragCanvas)) = None"
proof -
  have b: "button \<lparr>button = 2, rawX = 50, rawY = 50\<rparr> = 2" by simp
  have s: "startPoint dragCanvas = Some \<lparr>px = 20, py = 20\<rparr>"
    "dimensionStart (store dragCanvas) = Some \<lparr>px = 0, py = 0\<rparr>"
    "currentTool (store dragCanvas) = DimensionTool"
    "vectorObjects (store dragCanvas) = []"
    by (simp_all add: dragCanvas_def idleCanvas_def initialStore_def)
  show ?thesis
    using b s cancel_clears_drag_and_dimension[OF b, of dragCanvas "''img''"]
    by simp
qed

text \<open>
  The table spells the property \<open>Escape\<close> with a capital, and the key is lower-cased
  before the lookup: pressing Escape invokes no handler, while F5 finds \<open>f5\<close>.
\<close>

lemma escape_key_reaches_no_handler:
  "handleKeyDown ctrlKey ''Escape'' = None \<and> handleKeyDown False ''F5'' = Some RefreshCanvasAction"
  by (simp add: handleKeyDown_def toLowerCase_def lowerChar_def keyboardShortcuts_def)




text \<open>
  \<^verbatim>\<open>submitCommand\<close> ends with \<^verbatim>\<open>clearCommand\<close> whenever it ran a prompt, so no callback
  is installed after it; in particular the height prompt that a valid width shows is
  cleared in the same call, and no value is ever submitted to it.
\<close>

lemma submitCommand_leaves_no_prompt:
  assumes "currentCommand c \<noteq> None" and "commandCallback c \<noteq> None"
    and "submitCommand capture c = Inr c'"
  shows "currentCommand c' = None \<and> commandCallback c' = None"
  using assms
  by (auto simp: submitCommand_def clearCommand_def split: command_text.splits sum.splits)

lemma valid_width_shows_no_height_prompt:
  assumes "0 < v" and "currentCommand c = Some WidthCommand"
    and "commandCallback c = Some WidthCallback" and "commandInput c = Numeric v"
  shows "submitCommand capture c =
           Inr (c\<lparr>currentCommand := None, commandCallback := None, commandInput := Blank\<rparr>)"
  using assms
  by (simp add: submitCommand_def clearCommand_def showCommand_def)

end
